theory Spec2Isabelle
  imports Main "HOL-Library.Signed_Division"
begin

section \<open>Common types\<close>

text \<open>
  Go's \<open>[]byte\<close> and \<open>string\<close> are both modelled as \<open>string\<close> (a list of bytes).
  A Go \<open>error\<close> value is a term of \<open>error\<close>: \<open>Errorf\<close> carries the format string and
  its arguments (\<open>errors.Errorf\<close>, \<open>errors.New\<close>), \<open>Wrapf\<close> the wrapped cause
  (\<open>errors.Wrapf\<close>), \<open>Panic\<close> a run-time panic (index out of range, nil dereference,
  division by zero).  A function that returns \<open>error\<close> in Go returns \<open>error option\<close>
  here, \<open>None\<close> being \<open>nil\<close>.
\<close>

type_synonym bytes = string

datatype error =
    Errorf string "string list"
  | Wrapf error string "string list"
  | WithMessage error string "string list"
  | Panic string

text \<open>\<open>errors.WithMessagef(err, format, args...)\<close> returns \<open>nil\<close> when \<open>err\<close> is \<open>nil\<close>.\<close>

definition WithMessagef :: "error option \<Rightarrow> string \<Rightarrow> string list \<Rightarrow> error option" where
  "WithMessagef err format args =
     (case err of None \<Rightarrow> None | Some e \<Rightarrow> Some (WithMessage e format args))"

section \<open>The ledger translator (package translator)\<close>

subsection \<open>Collaborators: the read-write set, the key package, the actions\<close>

text \<open>
  Modelled from the spec: the ledger accessor (the \<open>RWSet\<close> interface, implemented
  outside the translator) offers \<open>GetState\<close>, \<open>SetState\<close>, \<open>SetStateMetadata\<close> and
  \<open>DeleteState\<close>.  It is a key-value store indexed by (namespace, key), with a second
  store for the state metadata.  \<open>GetState\<close> returns \<open>None\<close> (Go's \<open>nil\<close>) for a key that holds no value.
  Each operation may fail with a storage error: \<open>faulty\<close> says for which
  (namespace, key) pairs the storage refuses to answer; a failed operation leaves the
  store as it was.
\<close>

record rwset =
  state :: "string \<times> string \<rightharpoonup> bytes"
  state_metadata :: "string \<times> string \<rightharpoonup> (string \<times> bytes) list"
  faulty :: "string \<times> string \<Rightarrow> bool"

definition GetState :: "rwset \<Rightarrow> string \<Rightarrow> string \<Rightarrow> error + bytes option" where
  "GetState rw ns k =
     (if faulty rw (ns, k) then Inl (Errorf ''storage fault'' [k])
      else Inr (state rw (ns, k)))"

definition SetState :: "rwset \<Rightarrow> string \<Rightarrow> string \<Rightarrow> bytes \<Rightarrow> error option \<times> rwset" where
  "SetState rw ns k v =
     (if faulty rw (ns, k) then (Some (Errorf ''storage fault'' [k]), rw)
      else (None, rw\<lparr>state := (state rw)((ns, k) \<mapsto> v)\<rparr>))"

definition SetStateMetadata ::
  "rwset \<Rightarrow> string \<Rightarrow> string \<Rightarrow> (string \<times> bytes) list option \<Rightarrow> error option \<times> rwset" where
  "SetStateMetadata rw ns k m =
     (if faulty rw (ns, k) then (Some (Errorf ''storage fault'' [k]), rw)
      else (None, rw\<lparr>state_metadata := (state_metadata rw)((ns, k) := m)\<rparr>))"

definition DeleteState :: "rwset \<Rightarrow> string \<Rightarrow> string \<Rightarrow> error option \<times> rwset" where
  "DeleteState rw ns k =
     (if faulty rw (ns, k) then (Some (Errorf ''storage fault'' [k]), rw)
      else (None, rw\<lparr>state := (state rw)((ns, k) := None)\<rparr>))"

text \<open>Go's \<open>len(bytes)\<close> on the result of \<open>GetState\<close>: a \<open>nil\<close> slice has length 0.\<close>

definition len :: "bytes option \<Rightarrow> nat" where
  "len b = (case b of None \<Rightarrow> 0 | Some v \<Rightarrow> length v)"

text \<open>
  Package \<open>keys\<close> is not modelled; its functions and constants are parameters of the
  model.
\<close>

record keys_pkg =
  CreateTokenKey :: "string \<Rightarrow> int \<Rightarrow> error + string"
  CreateTokenRequestKey :: "string \<Rightarrow> error + string"
  CreateSetupKey :: "error + string"
  Action :: string
  ActionIssue :: string
  ActionTransfer :: string

text \<open>
  The actions are interfaces; an action is the record of what its methods return.
\<close>

record issue_action =
  ia_NumOutputs :: int
  ia_GetSerializedOutputs :: "error + bytes list"
  ia_GetIssuer :: bytes

record transfer_action =
  ta_GetInputs :: "error + string list"
  ta_IsGraphHiding :: bool
  ta_NumOutputs :: int
  ta_IsRedeemAt :: "int \<Rightarrow> bool"
  ta_SerializeOutputAt :: "int \<Rightarrow> error + bytes"

record setup_action =
  sa_GetSetupParameters :: "error + bytes"

text \<open>The dynamic type of the \<open>interface{}\<close> handed to \<open>Write\<close>.\<close>

datatype token_action =
    IssueAction issue_action
  | TransferAction transfer_action
  | SetupAction setup_action
  | OtherAction

record translator =
  IssuingValidator :: "bytes \<Rightarrow> string \<Rightarrow> error option"
  RWSet :: rwset
  TxID :: string
  counter :: int
  namespace :: string

definition New :: "(bytes \<Rightarrow> string \<Rightarrow> error option) \<Rightarrow> string \<Rightarrow> rwset \<Rightarrow> string \<Rightarrow> translator" where
  "New issuingValidator txID rwSet ns =
     \<lparr>IssuingValidator = issuingValidator, RWSet = rwSet, TxID = txID, counter = 0,
      namespace = ns\<rparr>"

subsection \<open>CommitTokenRequest\<close>

definition CommitTokenRequest :: "keys_pkg \<Rightarrow> translator \<Rightarrow> bytes \<Rightarrow> error option \<times> translator" where
  "CommitTokenRequest K w raw =
     (case CreateTokenRequestKey K (TxID w) of
        Inl err \<Rightarrow> (Some (Errorf ''cannot create for token request %s'' [TxID w]), w)
      | Inr key \<Rightarrow>
         (case GetState (RWSet w) (namespace w) key of
            Inl err \<Rightarrow> (Some (Wrapf err ''failed to write token request %s'' [TxID w]), w)
          | Inr tr \<Rightarrow>
             if tr \<noteq> None then
               (Some (Wrapf (Errorf ''token request with same ID already exists'' [])
                        ''failed to write token request %s'' [TxID w]), w)
             else
               (case SetState (RWSet w) (namespace w) key raw of
                  (Some err, rw) \<Rightarrow>
                    (Some (Wrapf err ''failed to write token request %s'' [TxID w]), w\<lparr>RWSet := rw\<rparr>)
                | (None, rw) \<Rightarrow> (None, w\<lparr>RWSet := rw\<rparr>))))"

subsection \<open>The check stage\<close>

definition checkTokenDoesNotExist :: "keys_pkg \<Rightarrow> translator \<Rightarrow> int \<Rightarrow> string \<Rightarrow> error option" where
  "checkTokenDoesNotExist K w index txID =
     (case CreateTokenKey K txID index of
        Inl err \<Rightarrow> Some (Wrapf err ''error creating output ID'' [])
      | Inr tokenKey \<Rightarrow>
         (case GetState (RWSet w) (namespace w) tokenKey of
            Inl err \<Rightarrow> Some err
          | Inr outputBytes \<Rightarrow>
             if len outputBytes \<noteq> 0 then Some (Errorf ''token already exists: %s'' [tokenKey])
             else None))"

definition checkIssuePolicy :: "translator \<Rightarrow> issue_action \<Rightarrow> error option" where
  "checkIssuePolicy w issue = IssuingValidator w (ia_GetIssuer issue) ''''"

text \<open>The loop \<open>for i := 0; i < n; i++\<close> over the output indices, stopping at the first error.\<close>

fun checkOutputs :: "keys_pkg \<Rightarrow> translator \<Rightarrow> (int \<Rightarrow> bool) \<Rightarrow> int list \<Rightarrow> error option" where
  "checkOutputs K w skip [] = None"
| "checkOutputs K w skip (i # is) =
     (if skip i then checkOutputs K w skip is
      else (case checkTokenDoesNotExist K w (counter w + i) (TxID w) of
              Some err \<Rightarrow> Some err
            | None \<Rightarrow> checkOutputs K w skip is))"

definition indices :: "int \<Rightarrow> int list" where
  "indices n = map int [0..<nat n]"

definition checkIssue :: "keys_pkg \<Rightarrow> translator \<Rightarrow> issue_action \<Rightarrow> error option" where
  "checkIssue K w issue =
     (case checkIssuePolicy w issue of
        Some err \<Rightarrow> Some (Wrapf err ''invalid issue: verification of issue policy failed'' [])
      | None \<Rightarrow> checkOutputs K w (\<lambda>i. False) (indices (ia_NumOutputs issue)))"

text \<open>
  The two iterations over the inputs in \<open>checkTransfer\<close>: without graph hiding every input key must hold
  a non-empty value, with graph hiding every input key must hold none.
\<close>

fun checkInputs :: "translator \<Rightarrow> bool \<Rightarrow> string list \<Rightarrow> error option" where
  "checkInputs w gh [] = None"
| "checkInputs w gh (key # keys) =
     (case GetState (RWSet w) (namespace w) key of
        Inl err \<Rightarrow> Some (Wrapf err ''invalid transfer: failed getting state [%s]'' [key])
      | Inr bytes \<Rightarrow>
         if \<not> gh then
           (if len bytes = 0
            then Some (Errorf ''invalid transfer: input is already spent [%s]'' [key])
            else checkInputs w gh keys)
         else
           (if len bytes \<noteq> 0
            then Some (Errorf ''invalid transfer: input is already spent [%s:%v]'' [key, the bytes])
            else checkInputs w gh keys))"

definition checkTransfer :: "keys_pkg \<Rightarrow> translator \<Rightarrow> transfer_action \<Rightarrow> error option" where
  "checkTransfer K w t =
     (case ta_GetInputs t of
        Inl err \<Rightarrow> Some (Wrapf err ''invalid transfer: failed getting input IDs'' [])
      | Inr keys \<Rightarrow>
         (case checkInputs w (ta_IsGraphHiding t) keys of
            Some err \<Rightarrow> Some err
          | None \<Rightarrow> checkOutputs K w (ta_IsRedeemAt t) (indices (ta_NumOutputs t))))"

definition checkAction :: "keys_pkg \<Rightarrow> translator \<Rightarrow> token_action \<Rightarrow> error option" where
  "checkAction K w tokenAction =
     (case tokenAction of
        IssueAction action \<Rightarrow> checkIssue K w action
      | TransferAction action \<Rightarrow> checkTransfer K w action
      | SetupAction action \<Rightarrow> None
      | OtherAction \<Rightarrow> Some (Errorf ''unknown token action: %T'' []))"

definition checkProcess :: "keys_pkg \<Rightarrow> translator \<Rightarrow> token_action \<Rightarrow> error option" where
  "checkProcess K w action = checkAction K w action"

subsection \<open>The commit stage\<close>

definition commitSetupAction :: "keys_pkg \<Rightarrow> translator \<Rightarrow> setup_action \<Rightarrow> error option \<times> translator" where
  "commitSetupAction K w setup =
     (case sa_GetSetupParameters setup of
        Inl err \<Rightarrow> (Some err, w)
      | Inr raw \<Rightarrow>
         (case CreateSetupKey K of
            Inl err \<Rightarrow> (Some err, w)
          | Inr setupKey \<Rightarrow>
             (case SetState (RWSet w) (namespace w) setupKey raw of
                (err, rw) \<Rightarrow> (err, w\<lparr>RWSet := rw\<rparr>))))"

text \<open>
  The body of the loop over the serialized outputs of an issue: the i-th output is
  written under the key of (TxID, base + i) and tagged as issued.
\<close>

fun writeIssueOutputs ::
  "keys_pkg \<Rightarrow> string \<Rightarrow> string \<Rightarrow> int \<Rightarrow> rwset \<Rightarrow> (int \<times> bytes) list \<Rightarrow> error option \<times> rwset" where
  "writeIssueOutputs K ns txID base rw [] = (None, rw)"
| "writeIssueOutputs K ns txID base rw ((i, output) # rest) =
     (case CreateTokenKey K txID (base + i) of
        Inl err \<Rightarrow> (Some (Errorf ''error creating output ID: %s'' []), rw)
      | Inr outputID \<Rightarrow>
         (case SetState rw ns outputID output of
            (Some err, rw1) \<Rightarrow> (Some err, rw1)
          | (None, rw1) \<Rightarrow>
             (case SetStateMetadata rw1 ns outputID (Some [(Action K, ActionIssue K)]) of
                (Some err, rw2) \<Rightarrow> (Some err, rw2)
              | (None, rw2) \<Rightarrow> writeIssueOutputs K ns txID base rw2 rest)))"

definition enumerate_int :: "'a list \<Rightarrow> (int \<times> 'a) list" where
  "enumerate_int xs = zip (map int [0..<length xs]) xs"

definition commitIssueAction :: "keys_pkg \<Rightarrow> translator \<Rightarrow> issue_action \<Rightarrow> error option \<times> translator" where
  "commitIssueAction K w issueAction =
     (let base = counter w in
      case ia_GetSerializedOutputs issueAction of
        Inl err \<Rightarrow> (Some err, w)
      | Inr outputs \<Rightarrow>
         (case writeIssueOutputs K (namespace w) (TxID w) base (RWSet w) (enumerate_int outputs) of
            (Some err, rw) \<Rightarrow> (Some err, w\<lparr>RWSet := rw\<rparr>)
          | (None, rw) \<Rightarrow>
             (None, w\<lparr>RWSet := rw, counter := counter w + int (length outputs)\<rparr>)))"

fun writeTransferOutputs ::
  "keys_pkg \<Rightarrow> string \<Rightarrow> string \<Rightarrow> int \<Rightarrow> transfer_action \<Rightarrow> rwset \<Rightarrow> int list \<Rightarrow> error option \<times> rwset" where
  "writeTransferOutputs K ns txID base t rw [] = (None, rw)"
| "writeTransferOutputs K ns txID base t rw (i # is) =
     (if \<not> ta_IsRedeemAt t i then
        (case CreateTokenKey K txID (base + i) of
           Inl err \<Rightarrow> (Some (Errorf ''error creating output ID: %s'' []), rw)
         | Inr outputID \<Rightarrow>
            (case ta_SerializeOutputAt t i of
               Inl err \<Rightarrow> (Some err, rw)
             | Inr bytes \<Rightarrow>
                (case SetState rw ns outputID bytes of
                   (Some err, rw1) \<Rightarrow> (Some err, rw1)
                 | (None, rw1) \<Rightarrow>
                    (case SetStateMetadata rw1 ns outputID (Some [(Action K, ActionTransfer K)]) of
                       (Some err, rw2) \<Rightarrow> (Some err, rw2)
                     | (None, rw2) \<Rightarrow> writeTransferOutputs K ns txID base t rw2 is))))
      else writeTransferOutputs K ns txID base t rw is)"

fun spendTokens :: "string \<Rightarrow> rwset \<Rightarrow> string list \<Rightarrow> bool \<Rightarrow> error option \<times> rwset" where
  "spendTokens ns rw [] graphHiding = (None, rw)"
| "spendTokens ns rw (tid # ids) graphHiding =
     (if \<not> graphHiding then
        (case DeleteState rw ns tid of
           (Some err, rw1) \<Rightarrow> (Some err, rw1)
         | (None, rw1) \<Rightarrow>
            (case SetStateMetadata rw1 ns tid None of
               (Some err, rw2) \<Rightarrow> (Some err, rw2)
             | (None, rw2) \<Rightarrow> spendTokens ns rw2 ids graphHiding))
      else
        (case SetState rw ns tid ''true'' of
           (Some err, rw1) \<Rightarrow> (Some (Wrapf err ''failed to add serial number %s'' [tid]), rw1)
         | (None, rw1) \<Rightarrow> spendTokens ns rw1 ids graphHiding))"

definition commitTransferAction ::
  "keys_pkg \<Rightarrow> translator \<Rightarrow> transfer_action \<Rightarrow> error option \<times> translator" where
  "commitTransferAction K w transferAction =
     (let base = counter w in
      case writeTransferOutputs K (namespace w) (TxID w) base transferAction (RWSet w)
             (indices (ta_NumOutputs transferAction)) of
        (Some err, rw) \<Rightarrow> (Some err, w\<lparr>RWSet := rw\<rparr>)
      | (None, rw) \<Rightarrow>
         (case ta_GetInputs transferAction of
            Inl err \<Rightarrow> (Some err, w\<lparr>RWSet := rw\<rparr>)
          | Inr ids \<Rightarrow>
             (case spendTokens (namespace w) rw ids (ta_IsGraphHiding transferAction) of
                (Some err, rw1) \<Rightarrow> (Some err, w\<lparr>RWSet := rw1\<rparr>)
              | (None, rw1) \<Rightarrow>
                 (None, w\<lparr>RWSet := rw1, counter := counter w + ta_NumOutputs transferAction\<rparr>))))"

definition commitAction :: "keys_pkg \<Rightarrow> translator \<Rightarrow> token_action \<Rightarrow> error option \<times> translator" where
  "commitAction K w tokenAction =
     (case tokenAction of
        IssueAction action \<Rightarrow> commitIssueAction K w action
      | TransferAction action \<Rightarrow> commitTransferAction K w action
      | SetupAction action \<Rightarrow> commitSetupAction K w action
      | OtherAction \<Rightarrow> (None, w))"

definition commitProcess :: "keys_pkg \<Rightarrow> translator \<Rightarrow> token_action \<Rightarrow> error option \<times> translator" where
  "commitProcess K w action = commitAction K w action"

definition Write :: "keys_pkg \<Rightarrow> translator \<Rightarrow> token_action \<Rightarrow> error option \<times> translator" where
  "Write K w action =
     (case checkProcess K w action of
        Some err \<Rightarrow> (Some err, w)
      | None \<Rightarrow> commitProcess K w action)"

text \<open>
  The loop of the chaincode's \<open>invoke\<close> (package tcc):
  \<open>for _, action := range actions { err = w.Write(action); if err != nil { return ... } }\<close>.
\<close>

fun write_actions :: "keys_pkg \<Rightarrow> translator \<Rightarrow> token_action list \<Rightarrow> error option \<times> translator" where
  "write_actions K w [] = (None, w)"
| "write_actions K w (action # actions) =
     (case Write K w action of
        (Some err, w1) \<Rightarrow> (Some err, w1)
      | (None, w1) \<Rightarrow> write_actions K w1 actions)"

section \<open>Go arithmetic used by the range proof\<close>

text \<open>
  The range proof computes powers of the base with \<open>math.Pow\<close> on \<open>float64\<close> and
  converts the result back to \<open>int64\<close>.  Every float that occurs is a non-negative
  integer, so a \<open>float64\<close> is represented by the integer it holds.  A \<open>float64\<close> has
  53 significant bits: \<open>float64_round\<close> is IEEE-754 rounding to nearest, ties to even,
  of a non-negative integer.
\<close>

fun bit_length :: "nat \<Rightarrow> nat" where
  "bit_length n = (if n = 0 then 0 else Suc (bit_length (n div 2)))"

declare bit_length.simps [simp del]

definition float64_round :: "nat \<Rightarrow> nat" where
  "float64_round n =
     (if n < 2 ^ 53 then n
      else let e = bit_length n - 53; q = n div 2 ^ e; r = n mod 2 ^ e; half = 2 ^ (e - 1)
           in if r < half then q * 2 ^ e
              else if half < r then (q + 1) * 2 ^ e
              else (if even q then q else q + 1) * 2 ^ e)"

text \<open>
  Go's \<open>math.Pow(x, y)\<close> for a non-negative integer \<open>y\<close>: after the special cases, the
  loop \<open>for i := int64(yi); i != 0; i >>= 1\<close> multiplies \<open>a1\<close> by \<open>x1\<close> when the low
  bit of \<open>i\<close> is set and squares \<open>x1\<close>; each product is rounded once.  (The library
  keeps mantissa and binary exponent apart, which rescales by powers of two only.)
\<close>

fun pow_loop :: "nat \<Rightarrow> nat \<Rightarrow> nat \<Rightarrow> nat" where
  "pow_loop i a1 x1 =
     (if i = 0 then a1
      else pow_loop (i div 2) (if odd i then float64_round (a1 * x1) else a1)
             (float64_round (x1 * x1)))"

declare pow_loop.simps [simp del]

definition math_Pow :: "nat \<Rightarrow> nat \<Rightarrow> nat" where
  "math_Pow x y =
     (if y = 0 \<or> x = 1 then 1
      else if y = 1 then x
      else if x = 0 then 0
      else pow_loop y 1 x)"

text \<open>
  \<open>int64(f)\<close> for a float: a value that does not fit (also +Inf) converts to the
  smallest \<open>int64\<close>, as the amd64 conversion instruction does.
\<close>

definition int64_of_float64 :: "nat \<Rightarrow> int" where
  "int64_of_float64 f = (if f < 2 ^ 63 then int f else - (2 ^ 63))"

text \<open>\<open>int64(b)\<close> for a \<open>uint64\<close>: two's complement reinterpretation.\<close>

definition int64_of_uint64 :: "nat \<Rightarrow> int" where
  "int64_of_uint64 b = (if b < 2 ^ 63 then int b else int b - 2 ^ 64)"

text \<open>The expression \<open>int64(math.Pow(float64(p.Base), float64(e)))\<close>, for \<open>0 \<le> e\<close>.\<close>

definition int64_pow :: "nat \<Rightarrow> int \<Rightarrow> int" where
  "int64_pow base e = int64_of_float64 (math_Pow (float64_round base) (nat e))"

section \<open>The range proof (package rangeproof)\<close>

subsection \<open>Digit decomposition\<close>

text \<open>
  Lines 197 to 206 of \<open>computeMembershipWitness\<close>: the array \<open>values\<close> of one token.
  \<open>sdiv\<close> and \<open>smod\<close> are Go's \<open>/\<close> and \<open>%\<close> on integers (truncation towards zero).
\<close>

function quotient_loop :: "nat \<Rightarrow> int \<Rightarrow> int \<Rightarrow> int list \<Rightarrow> int \<Rightarrow> error + int list" where
  "quotient_loop base exponent v values i =
     (if i < exponent - 1 then
        (let d = int64_pow base (exponent - 1 - i) in
         if d = 0 then Inl (Panic ''integer divide by zero'')
         else quotient_loop base exponent (v smod d)
                (values[nat (exponent - 1 - i) := v sdiv d]) (i + 1))
      else Inr values)"
  by pat_completeness auto
termination
  by (relation "measure (\<lambda>(base, exponent, v, values, i). nat (exponent - 1 - i))") auto

declare quotient_loop.simps [simp del]

definition range_error :: error where
  "range_error = Errorf ''cannot compute range proof: value of token outside authorized range'' []"

definition computeValues :: "nat \<Rightarrow> int \<Rightarrow> int \<Rightarrow> error + int list" where
  "computeValues base exponent v =
     (if exponent < 0 then Inl (Panic ''makeslice: len out of range'')
      else if v \<ge> int64_pow base exponent then Inl range_error
      else if int64_of_uint64 base = 0 then Inl (Panic ''integer divide by zero'')
      else if exponent = 0 then Inl (Panic ''index out of range'')
      else quotient_loop base exponent v
             ((replicate (nat exponent) 0)[0 := v smod int64_of_uint64 base]) 0)"

subsection \<open>Data and collaborators of the prover\<close>

text \<open>
  Scalars (\<open>bn256.Zr\<close>), group elements (\<open>bn256.G1\<close>, \<open>bn256.G2\<close>) and
  Pointcheval-Sanders signatures (\<open>pssign.Signature\<close>) are opaque: the types \<open>'zr\<close>,
  \<open>'g1\<close>, \<open>'g2\<close> and \<open>'sig\<close>.  Packages \<open>bn256\<close>, \<open>common\<close>, \<open>sigproof\<close>
  (membership proofs) and \<open>encoding/json\<close> are not modelled; what the
  range proof calls from them is a parameter of the model, collected in \<open>rp_env\<close>.
  A slice is the list of its elements and has no capacity beyond its length: the
  expression \<open>PedersenParams[:2]\<close> panics on fewer than two parameters.
\<close>

record 'zr token_data_witness =
  tw_Type :: string
  tw_Value :: 'zr
  tw_BlindingFactor :: 'zr

record ('zr, 'sig) membership_witness =
  mw_signature :: 'sig
  mw_value :: 'zr
  mw_bf :: 'zr

record ('zr, 'g1, 'g2) rp_Verifier =
  rp_Token :: "'g1 list"
  rp_Base :: nat
  rp_Exponent :: int
  rp_PedersenParams :: "'g1 list"
  rp_Q :: 'g2
  rp_P :: 'g1
  rp_PK :: "'g2 list"

record ('zr, 'g1, 'g2, 'sig) rp_Prover = "('zr, 'g1, 'g2) rp_Verifier" +
  tokenWitness :: "'zr token_data_witness list"
  Signatures :: "'sig list"

definition NewProver ::
  "'zr token_data_witness list \<Rightarrow> 'g1 list \<Rightarrow> 'sig list \<Rightarrow> int \<Rightarrow> 'g1 list \<Rightarrow> 'g2 list \<Rightarrow> 'g1 \<Rightarrow> 'g2
   \<Rightarrow> ('zr, 'g1, 'g2, 'sig) rp_Prover" where
  "NewProver tw token signatures exponent pp PK P Q =
     \<lparr>rp_Token = token, rp_Base = length signatures, rp_Exponent = exponent,
      rp_PedersenParams = pp, rp_Q = Q, rp_P = P, rp_PK = PK,
      tokenWitness = tw, Signatures = signatures\<rparr>"

record 'zr EqualityProofs =
  eq_Type :: 'zr
  eq_Value :: "'zr list"
  eq_TokenBlindingFactor :: "'zr list"
  eq_CommitmentBlindingFactor :: "'zr list"

record 'g1 MembershipProof =
  Commitments :: "'g1 list"
  SignatureProofs :: "bytes list"

record ('zr, 'g1) Proof =
  Challenge :: 'zr
  EqualityProofs :: "'zr EqualityProofs"
  MembershipProofs :: "'g1 MembershipProof list"

record 'g1 Commitment =
  com_Token :: "'g1 list"
  com_CommitmentToValue :: "'g1 list"

text \<open>
  The scalars drawn with \<open>bn256.RandModOrder\<close> during one run of \<open>Prove\<close>: the
  blinding factor of digit \<open>i\<close> of token \<open>k\<close>, and the randomness of the equality proof.
\<close>

record 'zr Randomness =
  rnd_bf :: "nat \<Rightarrow> int \<Rightarrow> 'zr"
  rnd_Type :: 'zr
  rnd_Value :: "nat \<Rightarrow> 'zr"
  rnd_CommitmentBlindingFactor :: "nat \<Rightarrow> 'zr"
  rnd_TokenBlindingFactor :: "nat \<Rightarrow> 'zr"

record ('zr, 'g1, 'g2, 'sig) rp_env =
  GetRand :: "error option"
  Order :: 'zr
  NewZr :: 'zr
  NewZrInt :: "int \<Rightarrow> 'zr"
  Int64 :: "'zr \<Rightarrow> int"
  ModAdd :: "'zr \<Rightarrow> 'zr \<Rightarrow> 'zr \<Rightarrow> 'zr"
  ModMul :: "'zr \<Rightarrow> 'zr \<Rightarrow> 'zr \<Rightarrow> 'zr"
  HashModOrder :: "bytes \<Rightarrow> 'zr"
  NewZrFromBytes :: "bytes \<Rightarrow> 'zr"
  sha256_Sum256 :: "bytes \<Rightarrow> bytes"
  g1_Mul :: "'g1 \<Rightarrow> 'zr \<Rightarrow> 'g1"
  g1_Add :: "'g1 \<Rightarrow> 'g1 \<Rightarrow> 'g1"
  GetG1Array_Bytes :: "'g1 list list \<Rightarrow> bytes"
  GetG2Array_Bytes :: "'g2 list list \<Rightarrow> bytes"
  ComputePedersenCommitment :: "'zr list \<Rightarrow> 'g1 list \<Rightarrow> error + 'g1"
  SchnorrProver_Prove :: "'zr \<Rightarrow> 'zr list \<Rightarrow> 'zr list \<Rightarrow> error + 'zr list"
  MembershipProver_Prove ::
    "('zr, 'sig) membership_witness \<Rightarrow> 'g1 \<Rightarrow> 'g1 \<Rightarrow> 'g2 \<Rightarrow> 'g2 list \<Rightarrow> 'g1 list \<Rightarrow> error + bytes"
  json_Marshal :: "('zr, 'g1) Proof \<Rightarrow> error + bytes"

subsection \<open>computeMembershipWitness\<close>

text \<open>
  The loop of lines 211 to 221 for one token: digit \<open>i\<close> is committed with a fresh
  blinding factor, paired with the signature on its value, and the blinding factor
  is accumulated with weight \<open>int(math.Pow(Base, i))\<close>.
\<close>

function commit_loop ::
  "('zr, 'g1, 'g2, 'sig) rp_env \<Rightarrow> ('zr, 'g1, 'g2, 'sig) rp_Prover \<Rightarrow> (int \<Rightarrow> 'zr) \<Rightarrow> int list \<Rightarrow> int \<Rightarrow>
   'g1 list \<Rightarrow> ('zr, 'sig) membership_witness list \<Rightarrow> 'zr \<Rightarrow>
   error + ('g1 list \<times> ('zr, 'sig) membership_witness list \<times> 'zr)" where
  "commit_loop E p bfs values i coms mws cbf =
     (if i < rp_Exponent p then
        (let bf = bfs i; d = values ! nat i in
         if length (rp_PedersenParams p) < 2 then Inl (Panic ''slice bounds out of range'')
         else
           (case ComputePedersenCommitment E [NewZrInt E d, bf] (take 2 (rp_PedersenParams p)) of
              Inl err \<Rightarrow> Inl err
            | Inr com \<Rightarrow>
               if d < 0 \<or> int (length (Signatures p)) \<le> d then Inl (Panic ''index out of range'')
               else commit_loop E p bfs values (i + 1) (coms @ [com])
                      (mws @ [\<lparr>mw_signature = Signatures p ! nat d, mw_value = NewZrInt E d,
                               mw_bf = bf\<rparr>])
                      (ModAdd E cbf (ModMul E bf (NewZrInt E (int64_pow (rp_Base p) i)) (Order E))
                         (Order E))))
      else Inr (coms, mws, cbf))"
  by pat_completeness auto
termination
  by (relation "measure (\<lambda>(E, p, bfs, values, i, coms, mws, cbf). nat (rp_Exponent p - i))") auto

declare commit_loop.simps [simp del]

fun witness_loop ::
  "('zr, 'g1, 'g2, 'sig) rp_env \<Rightarrow> ('zr, 'g1, 'g2, 'sig) rp_Prover \<Rightarrow> (nat \<Rightarrow> int \<Rightarrow> 'zr) \<Rightarrow> nat \<Rightarrow>
   'zr token_data_witness list \<Rightarrow>
   'g1 list list \<times> ('zr, 'sig) membership_witness list list \<times> 'zr list \<Rightarrow>
   error + ('g1 list list \<times> ('zr, 'sig) membership_witness list list \<times> 'zr list)" where
  "witness_loop E p bf k [] acc = Inr acc"
| "witness_loop E p bf k (tw # tws) (coms, membershipWitness, commitmentBlindingFactor) =
     (case computeValues (rp_Base p) (rp_Exponent p) (Int64 E (tw_Value tw)) of
        Inl err \<Rightarrow> Inl err
      | Inr values \<Rightarrow>
         (case commit_loop E p (bf k) values 0 [] [] (NewZr E) of
            Inl err \<Rightarrow> Inl err
          | Inr (coms_k, mws_k, cbf_k) \<Rightarrow>
             witness_loop E p bf (Suc k) tws
               (coms @ [coms_k], membershipWitness @ [mws_k], commitmentBlindingFactor @ [cbf_k])))"

definition computeMembershipWitness ::
  "('zr, 'g1, 'g2, 'sig) rp_env \<Rightarrow> ('zr, 'g1, 'g2, 'sig) rp_Prover \<Rightarrow> (nat \<Rightarrow> int \<Rightarrow> 'zr) \<Rightarrow>
   error + ('g1 list list \<times> ('zr, 'sig) membership_witness list list \<times> 'zr list)" where
  "computeMembershipWitness E p bf =
     (case GetRand E of
        Some err \<Rightarrow> Inl err
      | None \<Rightarrow> witness_loop E p bf 0 (tokenWitness p) ([], [], []))"

subsection \<open>computeCommitment and computeChallenge\<close>

fun commitment_loop ::
  "('zr, 'g1, 'g2, 'sig) rp_env \<Rightarrow> ('zr, 'g1, 'g2, 'sig) rp_Prover \<Rightarrow> 'zr Randomness \<Rightarrow> nat \<Rightarrow>
   'zr token_data_witness list \<Rightarrow> 'g1 Commitment \<Rightarrow> error + 'g1 Commitment" where
  "commitment_loop E p r i [] c = Inr c"
| "commitment_loop E p r i (tw # tws) c =
     (if length (rp_PedersenParams p) < 3 \<or> length (rp_Token p) \<le> i
      then Inl (Panic ''index out of range'')
      else
        (let pp = rp_PedersenParams p;
             tok = g1_Add E (g1_Add E (g1_Mul E (pp ! 0) (rnd_Type r))
                                      (g1_Mul E (pp ! 1) (rnd_Value r i)))
                            (g1_Mul E (pp ! 2) (rnd_TokenBlindingFactor r i));
             com = g1_Add E (g1_Mul E (pp ! 0) (rnd_Value r i))
                            (g1_Mul E (pp ! 1) (rnd_CommitmentBlindingFactor r i))
         in commitment_loop E p r (Suc i) tws
              \<lparr>com_Token = com_Token c @ [tok],
               com_CommitmentToValue = com_CommitmentToValue c @ [com]\<rparr>))"

definition computeCommitment ::
  "('zr, 'g1, 'g2, 'sig) rp_env \<Rightarrow> ('zr, 'g1, 'g2, 'sig) rp_Prover \<Rightarrow> 'zr Randomness \<Rightarrow>
   error + 'g1 Commitment" where
  "computeCommitment E p r =
     (case GetRand E of
        Some err \<Rightarrow> Inl err
      | None \<Rightarrow>
         commitment_loop E p r 0 (tokenWitness p) \<lparr>com_Token = [], com_CommitmentToValue = []\<rparr>)"

definition computeChallenge ::
  "('zr, 'g1, 'g2, 'sig) rp_env \<Rightarrow> ('zr, 'g1, 'g2, 'sig) rp_Prover \<Rightarrow> 'g1 Commitment \<Rightarrow> 'g1 list list \<Rightarrow> 'zr" where
  "computeChallenge E v commitment comToValue =
     (let g1array = GetG1Array_Bytes E
                      [ [rp_P v], rp_Token v, com_Token commitment,
                       com_CommitmentToValue commitment, rp_PedersenParams v];
          g2array = GetG2Array_Bytes E [ [rp_Q v], rp_PK v];
          bytes = g1array @ g2array @ concat (map (\<lambda>c. GetG1Array_Bytes E [c]) comToValue)
      in NewZrFromBytes E (sha256_Sum256 E bytes))"

subsection \<open>Prove\<close>

text \<open>The membership proofs of token \<open>k\<close>: one signature proof per digit commitment.\<close>

function sigproof_loop ::
  "('zr, 'g1, 'g2, 'sig) rp_env \<Rightarrow> ('zr, 'g1, 'g2, 'sig) rp_Prover \<Rightarrow> 'g1 list list \<Rightarrow>
   ('zr, 'sig) membership_witness list list \<Rightarrow> nat \<Rightarrow> int \<Rightarrow> 'g1 MembershipProof \<Rightarrow>
   error + 'g1 MembershipProof" where
  "sigproof_loop E p coms mws k i mp =
     (if i < rp_Exponent p then
        (if length coms \<le> k \<or> length (coms ! k) \<le> nat i \<or> length mws \<le> k
            \<or> length (mws ! k) \<le> nat i
         then Inl (Panic ''index out of range'')
         else if length (rp_PedersenParams p) < 2 then Inl (Panic ''slice bounds out of range'')
         else
           (case MembershipProver_Prove E (mws ! k ! nat i) (coms ! k ! nat i) (rp_P p) (rp_Q p)
                   (rp_PK p) (take 2 (rp_PedersenParams p)) of
              Inl err \<Rightarrow> Inl err
            | Inr sp \<Rightarrow>
               sigproof_loop E p coms mws k (i + 1)
                 \<lparr>Commitments = Commitments mp @ [coms ! k ! nat i],
                  SignatureProofs = SignatureProofs mp @ [sp]\<rparr>))
      else Inr mp)"
  by pat_completeness auto
termination
  by (relation "measure (\<lambda>(E, p, coms, mws, k, i, mp). nat (rp_Exponent p - i))") auto

declare sigproof_loop.simps [simp del]

fun membership_loop ::
  "('zr, 'g1, 'g2, 'sig) rp_env \<Rightarrow> ('zr, 'g1, 'g2, 'sig) rp_Prover \<Rightarrow> 'g1 list list \<Rightarrow>
   ('zr, 'sig) membership_witness list list \<Rightarrow> nat \<Rightarrow> 'g1 list \<Rightarrow> 'g1 MembershipProof list \<Rightarrow>
   error + 'g1 MembershipProof list" where
  "membership_loop E p coms mws k [] acc = Inr acc"
| "membership_loop E p coms mws k (t # ts) acc =
     (if rp_Exponent p < 0 then Inl (Panic ''makeslice: len out of range'')
      else
        (case sigproof_loop E p coms mws k 0 \<lparr>Commitments = [], SignatureProofs = []\<rparr> of
           Inl err \<Rightarrow> Inl err
         | Inr mp \<Rightarrow> membership_loop E p coms mws (Suc k) ts (acc @ [mp])))"

text \<open>The equality proofs: one Schnorr proof per token, all under the same challenge.\<close>

fun equality_loop ::
  "('zr, 'g1, 'g2, 'sig) rp_env \<Rightarrow> ('zr, 'g1, 'g2, 'sig) rp_Prover \<Rightarrow> 'zr Randomness \<Rightarrow> 'zr \<Rightarrow> 'zr list \<Rightarrow>
   nat \<Rightarrow> 'g1 list \<Rightarrow> 'zr list \<times> 'zr list \<times> 'zr list \<Rightarrow> error + ('zr list \<times> 'zr list \<times> 'zr list)" where
  "equality_loop E p r chal cbf k [] acc = Inr acc"
| "equality_loop E p r chal cbf k (t # ts) (vs, tbfs, cbfs) =
     (if length (tokenWitness p) \<le> k \<or> length cbf \<le> k then Inl (Panic ''index out of range'')
      else
        (case SchnorrProver_Prove E chal
                [rnd_Value r k, rnd_TokenBlindingFactor r k, rnd_CommitmentBlindingFactor r k]
                [tw_Value (tokenWitness p ! k), tw_BlindingFactor (tokenWitness p ! k), cbf ! k] of
           Inl err \<Rightarrow> Inl err
         | Inr proofs \<Rightarrow>
            if length proofs < 3 then Inl (Panic ''index out of range'')
            else equality_loop E p r chal cbf (Suc k) ts
                   (vs @ [proofs ! 0], tbfs @ [proofs ! 1], cbfs @ [proofs ! 2])))"

definition Prove ::
  "('zr, 'g1, 'g2, 'sig) rp_env \<Rightarrow> ('zr, 'g1, 'g2, 'sig) rp_Prover \<Rightarrow> 'zr Randomness \<Rightarrow> error + bytes" where
  "Prove E p r =
     (case computeMembershipWitness E p (rnd_bf r) of
        Inl err \<Rightarrow> Inl err
      | Inr (coms, membershipWitness, commitmentBlindingFactor) \<Rightarrow>
         (case membership_loop E p coms membershipWitness 0 (rp_Token p) [] of
            Inl err \<Rightarrow> Inl err
          | Inr mps \<Rightarrow>
             (case computeCommitment E p r of
                Inl err \<Rightarrow> Inl err
              | Inr commitment \<Rightarrow>
                 (let chal = computeChallenge E p commitment coms in
                  case equality_loop E p r chal commitmentBlindingFactor 0 (rp_Token p) ([], [], []) of
                    Inl err \<Rightarrow> Inl err
                  | Inr (vs, tbfs, cbfs) \<Rightarrow>
                     (case tokenWitness p of
                        [] \<Rightarrow> Inl (Panic ''index out of range'')
                      | tw0 # _ \<Rightarrow>
                         json_Marshal E
                           \<lparr>Challenge = chal,
                            EqualityProofs =
                              \<lparr>eq_Type = ModAdd E (ModMul E chal (HashModOrder E (tw_Type tw0)) (Order E))
                                          (rnd_Type r) (Order E),
                               eq_Value = vs, eq_TokenBlindingFactor = tbfs,
                               eq_CommitmentBlindingFactor = cbfs\<rparr>,
                            MembershipProofs = mps\<rparr>)))))"

section \<open>The signature-based selective-disclosure proof (package sigproof)\<close>

text \<open>
  \<open>'gt\<close> is the target group of the pairing.  As for the range proof, what \<open>sigproof\<close>
  calls from packages \<open>bn256\<close>, \<open>common\<close>, \<open>pssign\<close> and from the proof of knowledge of
  a signature (\<open>POKVerifier\<close>) is a parameter, collected in \<open>sp_env\<close>.
\<close>

record ('zr, 'g1, 'sig) SigProof =
  sp_Challenge :: 'zr
  sp_Hidden :: "'zr list"
  sp_Hash :: 'zr
  sp_Signature :: 'sig
  sp_SigBlindingFactor :: 'zr
  sp_ComBlindingFactor :: 'zr
  sp_Commitment :: 'g1

record ('zr, 'g1, 'g2) SigVerifier =
  sv_P :: 'g1
  sv_Q :: 'g2
  sv_PK :: "'g2 list"
  HiddenIndices :: "int list"
  DisclosedIndices :: "int list"
  Disclosed :: "'zr list"
  sv_PedersenParams :: "'g1 list"
  CommitmentToMessages :: 'g1

record ('zr, 'sig) SigWitness =
  w_hidden :: "'zr list"
  w_hash :: 'zr
  w_signature :: 'sig
  w_sigBlindingFactor :: 'zr
  w_comBlindingFactor :: 'zr

record ('zr, 'g1, 'g2, 'sig) SigProver = "('zr, 'g1, 'g2) SigVerifier" +
  witness :: "('zr, 'sig) SigWitness"

record 'zr SigRandomness =
  r_hidden :: "'zr list"
  r_hash :: 'zr
  r_sigBlindingFactor :: 'zr
  r_comBlindingFactor :: 'zr

record ('g1, 'gt) SigCommitment =
  sc_CommitmentToMessages :: 'g1
  sc_Signature :: 'gt

record ('zr, 'sig) POK =
  pok_Challenge :: 'zr
  pok_Signature :: 'sig
  pok_Messages :: "'zr option list"
  pok_Hash :: 'zr
  pok_BlindingFactor :: 'zr

text \<open>The scalars drawn with \<open>bn256.RandModOrder\<close> during one run of \<open>SigProver.Prove\<close>.\<close>

record 'zr SigSamples =
  smp_sigBlindingFactor :: 'zr
  smp_hidden :: "nat \<Rightarrow> 'zr"
  smp_hash :: 'zr
  smp_comBlindingFactor :: 'zr
  smp_sigBlindingFactorRandomness :: 'zr

record ('zr, 'g1, 'g2, 'gt, 'sig) sp_env =
  sp_GetRand :: "error option"
  sp_Order :: 'zr
  sp_ModMul :: "'zr \<Rightarrow> 'zr \<Rightarrow> 'zr \<Rightarrow> 'zr"
  sp_HashModOrder :: "bytes \<Rightarrow> 'zr"
  sp_g1_Mul :: "'g1 \<Rightarrow> 'zr \<Rightarrow> 'g1"
  sp_g1_Add :: "'g1 \<Rightarrow> 'g1 \<Rightarrow> 'g1"
  sp_g2_Mul :: "'g2 \<Rightarrow> 'zr \<Rightarrow> 'g2"
  sp_g2_Add :: "'g2 \<Rightarrow> 'g2 \<Rightarrow> 'g2"
  Pairing :: "'g2 \<Rightarrow> 'g1 \<Rightarrow> 'g2 \<Rightarrow> 'g1 \<Rightarrow> 'gt"
  FinalExp :: "'gt \<Rightarrow> 'gt"
  gt_Bytes :: "'gt \<Rightarrow> bytes"
  sig_Randomize :: "'sig \<Rightarrow> error + 'sig"
  sig_R :: "'sig \<Rightarrow> 'g1"
  sig_S_Add :: "'sig \<Rightarrow> 'g1 \<Rightarrow> 'sig"
  sig_Serialize :: "'sig \<Rightarrow> error + bytes"
  sp_GetG1Array_Bytes :: "'g1 list list \<Rightarrow> bytes"
  sp_GetG2Array_Bytes :: "'g2 list list \<Rightarrow> bytes"
  GetBytesArray :: "bytes list \<Rightarrow> bytes"
  sp_SchnorrProver_Prove :: "'zr \<Rightarrow> 'zr list \<Rightarrow> 'zr list \<Rightarrow> error + 'zr list"
  SchnorrVerifier_RecomputeCommitment :: "'g1 list \<Rightarrow> 'g1 \<Rightarrow> 'zr list \<Rightarrow> 'zr \<Rightarrow> 'g1"
  POKVerifier_RecomputeCommitment :: "'g1 \<Rightarrow> 'g2 \<Rightarrow> 'g2 list \<Rightarrow> ('zr, 'sig) POK \<Rightarrow> error + 'gt"

subsection \<open>The prover\<close>

definition obfuscateSignature ::
  "('zr, 'g1, 'g2, 'gt, 'sig) sp_env \<Rightarrow> ('zr, 'g1, 'g2, 'sig) SigProver \<Rightarrow> 'zr SigSamples \<Rightarrow>
   error + ('sig \<times> ('zr, 'sig) SigWitness)" where
  "obfuscateSignature E p smp =
     (case sp_GetRand E of
        Some err \<Rightarrow> Inl (Errorf ''failed to get RNG'' [])
      | None \<Rightarrow>
         (case sig_Randomize E (w_signature (witness p)) of
            Inl err \<Rightarrow> Inl err
          | Inr randomized \<Rightarrow>
             Inr (sig_S_Add E randomized (sp_g1_Mul E (sv_P p) (smp_sigBlindingFactor smp)),
                  (witness p)\<lparr>w_sigBlindingFactor := smp_sigBlindingFactor smp,
                              w_signature := randomized\<rparr>)))"

text \<open>\<open>for i, r := range p.randomness.hidden\<close>: add \<open>PedersenParams[i].Mul(r)\<close>.\<close>

fun add_hidden :: "('zr, 'g1, 'g2, 'gt, 'sig) sp_env \<Rightarrow> 'g1 list \<Rightarrow> nat \<Rightarrow> 'zr list \<Rightarrow> 'g1 \<Rightarrow> error + 'g1" where
  "add_hidden E pp i [] c = Inr c"
| "add_hidden E pp i (r # rs) c =
     (if length pp \<le> i then Inl (Panic ''index out of range'')
      else add_hidden E pp (Suc i) rs (sp_g1_Add E c (sp_g1_Mul E (pp ! i) r)))"

text \<open>\<open>for i, index := range p.HiddenIndices\<close>: add \<open>PK[index+1].Mul(hidden[i])\<close>.\<close>

fun add_indexed ::
  "('zr, 'g1, 'g2, 'gt, 'sig) sp_env \<Rightarrow> 'g2 list \<Rightarrow> 'zr list \<Rightarrow> nat \<Rightarrow> int list \<Rightarrow> 'g2 \<Rightarrow> error + 'g2" where
  "add_indexed E pk hidden i [] t = Inr t"
| "add_indexed E pk hidden i (index # rest) t =
     (if index + 1 < 0 \<or> int (length pk) \<le> index + 1 \<or> length hidden \<le> i
      then Inl (Panic ''index out of range'')
      else add_indexed E pk hidden (Suc i) rest
             (sp_g2_Add E t (sp_g2_Mul E (pk ! nat (index + 1)) (hidden ! i))))"

definition sp_computeCommitment ::
  "('zr, 'g1, 'g2, 'gt, 'sig) sp_env \<Rightarrow> ('zr, 'g1, 'g2, 'sig) SigProver \<Rightarrow> ('zr, 'sig) SigWitness \<Rightarrow>
   'zr SigSamples \<Rightarrow> error + ('zr SigRandomness \<times> ('g1, 'gt) SigCommitment)" where
  "sp_computeCommitment E p w smp =
     (if int (length (sv_PedersenParams p)) \<noteq> int (length (HiddenIndices p)) + 1 then
        Inl (Errorf ''size of witness does not match length of Pedersen Parameters'' [])
      else if int (length (sv_PK p))
                \<noteq> int (length (HiddenIndices p)) + int (length (DisclosedIndices p)) + 2 then
        Inl (Errorf ''size of signature public key does not mathc the size of the witness'' [])
      else
        (case sp_GetRand E of
           Some err \<Rightarrow> Inl (Errorf ''failed to get RNG'' [])
         | None \<Rightarrow>
            (let n = length (w_hidden w);
                 r = \<lparr>r_hidden = map (smp_hidden smp) [0..<n], r_hash = smp_hash smp,
                      r_sigBlindingFactor = smp_sigBlindingFactorRandomness smp,
                      r_comBlindingFactor = smp_comBlindingFactor smp\<rparr>
             in if length (sv_PedersenParams p) \<le> n then Inl (Panic ''index out of range'')
                else
                  (case add_hidden E (sv_PedersenParams p) 0 (r_hidden r)
                          (sp_g1_Mul E (sv_PedersenParams p ! n) (r_comBlindingFactor r)) of
                     Inl err \<Rightarrow> Inl err
                   | Inr ctm \<Rightarrow>
                      if length (sv_PK p) \<le> length (Disclosed p) + n + 1
                      then Inl (Panic ''index out of range'')
                      else
                        (case add_indexed E (sv_PK p) (r_hidden r) 0 (HiddenIndices p)
                                (sp_g2_Mul E (sv_PK p ! (length (Disclosed p) + n + 1)) (r_hash r)) of
                           Inl err \<Rightarrow> Inl err
                         | Inr t \<Rightarrow>
                            Inr (r, \<lparr>sc_CommitmentToMessages = ctm,
                                     sc_Signature =
                                       FinalExp E (Pairing E t (sig_R E (w_signature w)) (sv_Q p)
                                         (sp_g1_Mul E (sv_P p) (r_sigBlindingFactor r)))\<rparr>))))))"

definition sp_computeChallenge ::
  "('zr, 'g1, 'g2, 'gt, 'sig) sp_env \<Rightarrow> ('zr, 'g1, 'g2, 'b) SigVerifier_scheme \<Rightarrow> 'g1 \<Rightarrow> 'sig \<Rightarrow>
   ('g1, 'gt) SigCommitment \<Rightarrow> error + 'zr" where
  "sp_computeChallenge E v comToMessages signature com =
     (let g1array = sp_GetG1Array_Bytes E
                      [sv_PedersenParams v, [comToMessages, sc_CommitmentToMessages com, sv_P v]];
          g2array = sp_GetG2Array_Bytes E [sv_PK v, [sv_Q v]];
          raw = GetBytesArray E [g1array, g2array, gt_Bytes E (sc_Signature com)]
      in case sig_Serialize E signature of
           Inl err \<Rightarrow>
             Inl (Errorf ''failed to compute challenge: error while serializing Pointcheval-Sanders signature'' [])
         | Inr bytes \<Rightarrow> Inr (sp_HashModOrder E (raw @ bytes)))"

definition SigProver_Prove ::
  "('zr, 'g1, 'g2, 'gt, 'sig) sp_env \<Rightarrow> ('zr, 'g1, 'g2, 'sig) SigProver \<Rightarrow> 'zr SigSamples \<Rightarrow>
   error + ('zr, 'g1, 'sig) SigProof" where
  "SigProver_Prove E p smp =
     (if length (HiddenIndices p) \<noteq> length (w_hidden (witness p)) then
        Inl (Errorf ''witness is not of the right size'' [])
      else if length (DisclosedIndices p) \<noteq> length (Disclosed p) then
        Inl (Errorf ''witness is not of the right size'' [])
      else
        (case obfuscateSignature E p smp of
           Inl err \<Rightarrow> Inl err
         | Inr (signature, w) \<Rightarrow>
            (case sp_computeCommitment E p w smp of
               Inl err \<Rightarrow> Inl err
             | Inr (r, commitment) \<Rightarrow>
                (case sp_computeChallenge E p (CommitmentToMessages p) signature commitment of
                   Inl err \<Rightarrow> Inl err
                 | Inr chal \<Rightarrow>
                    (case sp_SchnorrProver_Prove E chal
                            (r_hidden r @ [r_comBlindingFactor r, r_sigBlindingFactor r, r_hash r])
                            (w_hidden w @ [w_comBlindingFactor w, w_sigBlindingFactor w, w_hash w]) of
                       Inl err \<Rightarrow> Inl (Wrapf err ''signature proof generation failed'' [])
                     | Inr proofs \<Rightarrow>
                        (let n = length (w_hidden w) in
                         if length proofs < n + 3 then Inl (Panic ''index out of range'')
                         else Inr \<lparr>sp_Challenge = chal, sp_Hidden = take n proofs,
                                   sp_Hash = proofs ! (n + 2), sp_Signature = signature,
                                   sp_SigBlindingFactor = proofs ! (n + 1),
                                   sp_ComBlindingFactor = proofs ! n,
                                   sp_Commitment = CommitmentToMessages p\<rparr>))))))"

subsection \<open>The verifier\<close>

text \<open>\<open>for i, index := range v.HiddenIndices\<close>: \<open>proof[index] = p.Hidden[i]\<close>.\<close>

fun set_hidden :: "'zr option list \<Rightarrow> nat \<Rightarrow> int list \<Rightarrow> 'zr list \<Rightarrow> error + 'zr option list" where
  "set_hidden proof i [] hidden = Inr proof"
| "set_hidden proof i (index # rest) hidden =
     (if length hidden \<le> i \<or> index < 0 \<or> int (length proof) \<le> index
      then Inl (Panic ''index out of range'')
      else set_hidden (proof[nat index := Some (hidden ! i)]) (Suc i) rest hidden)"

text \<open>
  \<open>for i, index := range v.DisclosedIndices\<close>:
  \<open>proof[index] = bn256.ModMul(v.Disclosed[i], p.Challenge, bn256.Order)\<close>.
\<close>

fun set_disclosed ::
  "('zr, 'g1, 'g2, 'gt, 'sig) sp_env \<Rightarrow> 'zr \<Rightarrow> 'zr option list \<Rightarrow> nat \<Rightarrow> int list \<Rightarrow> 'zr list \<Rightarrow>
   error + 'zr option list" where
  "set_disclosed E chal proof i [] disclosed = Inr proof"
| "set_disclosed E chal proof i (index # rest) disclosed =
     (if length disclosed \<le> i \<or> index < 0 \<or> int (length proof) \<le> index
      then Inl (Panic ''index out of range'')
      else set_disclosed E chal
             (proof[nat index := Some (sp_ModMul E (disclosed ! i) chal (sp_Order E))])
             (Suc i) rest disclosed)"

definition recomputeCommitments ::
  "('zr, 'g1, 'g2, 'gt, 'sig) sp_env \<Rightarrow> ('zr, 'g1, 'g2) SigVerifier \<Rightarrow> ('zr, 'g1, 'sig) SigProof \<Rightarrow>
   error + ('g1, 'gt) SigCommitment" where
  "recomputeCommitments E v p =
     (if int (length (sp_Hidden p)) + int (length (Disclosed v)) \<noteq> int (length (sv_PK v)) - 2 then
        Inl (Errorf ''length of signature public key does not match number of signed messages'' [])
      else
        (let ctm = SchnorrVerifier_RecomputeCommitment E (sv_PedersenParams v)
                     (CommitmentToMessages v) (sp_Hidden p @ [sp_ComBlindingFactor p])
                     (sp_Challenge p);
             proof = replicate (nat (int (length (sv_PK v)) - 2)) None
         in case set_hidden proof 0 (HiddenIndices v) (sp_Hidden p) of
              Inl err \<Rightarrow> Inl err
            | Inr proof1 \<Rightarrow>
               (case set_disclosed E (sp_Challenge p) proof1 0 (DisclosedIndices v) (Disclosed v) of
                  Inl err \<Rightarrow> Inl err
                | Inr proof2 \<Rightarrow>
                   (case POKVerifier_RecomputeCommitment E (sv_P v) (sv_Q v) (sv_PK v)
                           \<lparr>pok_Challenge = sp_Challenge p, pok_Signature = sp_Signature p,
                            pok_Messages = proof2, pok_Hash = sp_Hash p,
                            pok_BlindingFactor = sp_SigBlindingFactor p\<rparr> of
                      Inl err \<Rightarrow> Inl (Wrapf err ''failed to verify signature proof'' [])
                    | Inr sg \<Rightarrow>
                       Inr \<lparr>sc_CommitmentToMessages = ctm, sc_Signature = sg\<rparr>))))"

text \<open>
  \<open>SigVerifier.Verify\<close>.  A returned error of \<open>recomputeCommitments\<close> or of
  \<open>computeChallenge\<close> takes the branch \<open>if err != nil { return nil }\<close>; a panic is not
  a returned error and unwinds through \<open>Verify\<close>.
\<close>

definition SigVerifier_Verify ::
  "('zr, 'g1, 'g2, 'gt, 'sig) sp_env \<Rightarrow> ('zr, 'g1, 'g2) SigVerifier \<Rightarrow> ('zr, 'g1, 'sig) SigProof \<Rightarrow>
   error option" where
  "SigVerifier_Verify E v p =
     (case recomputeCommitments E v p of
        Inl (Panic m) \<Rightarrow> Some (Panic m)
      | Inl err \<Rightarrow> None
      | Inr com \<Rightarrow>
         (case sp_computeChallenge E v (sp_Commitment p) (sp_Signature p) com of
            Inl (Panic m) \<Rightarrow> Some (Panic m)
          | Inl err \<Rightarrow> None
          | Inr chal \<Rightarrow>
             if chal \<noteq> sp_Challenge p then Some (Errorf ''invalid signature proof'' [])
             else None))"

section \<open>Anonymous issuer authorization (package anonym)\<close>

record 'g1 Authorization =
  auth_Type :: 'g1
  auth_Token :: 'g1

record 'g1 anonym_Verifier =
  av_PedersenParams :: "'g1 list"
  Issuers :: "'g1 list"
  Auth :: "'g1 Authorization"
  BitLength :: int

record anonym_Signature =
  AuthorizationCorrectness :: bytes
  TypeCorrectness :: bytes

text \<open>
  The one-out-of-many verifier (package \<open>o2omp\<close>), the type-correctness verifier,
  \<open>json.Unmarshal\<close> and the group subtraction are parameters.
\<close>

record 'g1 anonym_env =
  Signature_Deserialize :: "bytes \<Rightarrow> error + anonym_Signature"
  av_g1_Sub :: "'g1 \<Rightarrow> 'g1 \<Rightarrow> 'g1"
  o2omp_Verify :: "'g1 list \<Rightarrow> bytes \<Rightarrow> 'g1 list \<Rightarrow> int \<Rightarrow> bytes \<Rightarrow> error option"
  TypeCorrectnessVerifier_Verify :: "'g1 \<Rightarrow> 'g1 \<Rightarrow> bytes \<Rightarrow> 'g1 list \<Rightarrow> bytes \<Rightarrow> error option"

definition anonym_Verify :: "'g1 anonym_env \<Rightarrow> 'g1 anonym_Verifier \<Rightarrow> bytes \<Rightarrow> bytes \<Rightarrow> error option" where
  "anonym_Verify E v message rawsig =
     (if length (av_PedersenParams v) \<noteq> 3 then
        Some (Errorf ''length of Pedersen parameters != 3'' [])
      else
        (case Signature_Deserialize E rawsig of
           Inl err \<Rightarrow> Some (Errorf ''failed to unmarshal issuer signature'' [])
         | Inr sig \<Rightarrow>
            (let commitments = map (\<lambda>i. av_g1_Sub E (auth_Type (Auth v)) i) (Issuers v) in
             case o2omp_Verify E commitments message
                    [av_PedersenParams v ! 0, av_PedersenParams v ! 2] (BitLength v)
                    (AuthorizationCorrectness sig) of
               Some err \<Rightarrow> Some (Wrapf err ''failed to verify issuer pseudonym'' [])
             | None \<Rightarrow>
                TypeCorrectnessVerifier_Verify E (auth_Type (Auth v)) (auth_Token (Auth v)) message
                  (av_PedersenParams v) (TypeCorrectness sig))))"

section \<open>Assembling a transfer (package token, type Request)\<close>

text \<open>
  A \<open>token2.Quantity\<close> is an interface value: \<open>'q option\<close>, \<open>None\<close> being the \<open>nil\<close>
  interface.  Package \<open>token2\<close> (quantities), the vault, the certification client, the
  selector and the wallet are collaborators that are not modelled and are parameters.
  A \<open>uint64\<close> is a natural number below \<open>2 ^ 64\<close>; its addition wraps around.
\<close>

record token_id =
  TxId :: string
  Index :: nat

record token =
  tk_Owner :: bytes
  tk_Type :: string
  tk_Quantity :: string

record OwnerWallet =
  ow_ID :: string
  ow_GetRecipientIdentity :: "error + bytes"

record 'q Selector =
  Select :: "OwnerWallet \<Rightarrow> string \<Rightarrow> string \<Rightarrow> error + (token_id list \<times> 'q option)"

record 'q TransferOptions =
  to_Selector :: "'q Selector option"
  to_TokenIDs :: "token_id list"

type_synonym 'q TransferOption = "'q TransferOptions \<Rightarrow> error option \<times> 'q TransferOptions"

definition WithTokenSelector :: "'q Selector option \<Rightarrow> 'q TransferOption" where
  "WithTokenSelector selector = (\<lambda>opts. (None, opts\<lparr>to_Selector := selector\<rparr>))"

definition WithTokenIDs :: "token_id list \<Rightarrow> 'q TransferOption" where
  "WithTokenIDs ids = (\<lambda>opts. (None, opts\<lparr>to_TokenIDs := ids\<rparr>))"

fun apply_options :: "'q TransferOption list \<Rightarrow> 'q TransferOptions \<Rightarrow> error + 'q TransferOptions" where
  "apply_options [] txOptions = Inr txOptions"
| "apply_options (opt # opts) txOptions =
     (case opt txOptions of
        (Some err, _) \<Rightarrow> Inl err
      | (None, txOptions1) \<Rightarrow> apply_options opts txOptions1)"

definition compileTransferOptions :: "'q TransferOption list \<Rightarrow> error + 'q TransferOptions" where
  "compileTransferOptions opts = apply_options opts \<lparr>to_Selector = None, to_TokenIDs = []\<rparr>"

record 'q request_env =
  GetTokens :: "token_id list \<Rightarrow> error + token list"
  RequestCertification :: "token_id list \<Rightarrow> error option"
  NewSelector :: "string \<Rightarrow> error + 'q Selector"
  ToQuantity :: "string \<Rightarrow> nat \<Rightarrow> error + 'q"
  NewQuantityFromUInt64 :: "nat \<Rightarrow> 'q"
  q_Add :: "'q \<Rightarrow> 'q \<Rightarrow> 'q"
  q_Sub :: "'q \<Rightarrow> 'q \<Rightarrow> 'q"
  q_Cmp :: "'q \<Rightarrow> 'q \<Rightarrow> int"
  Decimal :: "'q \<Rightarrow> string"

text \<open>\<open>view.Identity.IsNone\<close>: the identity has no bytes.\<close>

definition IsNone :: "bytes \<Rightarrow> bool" where
  "IsNone identity = (length identity = 0)"

subsection \<open>parseInputIDs\<close>

text \<open>
  The loop over the input tokens returns the four results of \<open>parseInputIDs\<close>.  In the
  branch \<open>typ != tok.Type\<close> the variable \<open>err\<close> is the one assigned by \<open>GetTokens\<close>,
  which is \<open>nil\<close> there.
\<close>

fun parse_loop ::
  "'q request_env \<Rightarrow> token_id list \<Rightarrow> string \<Rightarrow> 'q \<Rightarrow> token list \<Rightarrow>
   token_id list \<times> 'q option \<times> string \<times> error option" where
  "parse_loop R inputs typ acc [] = (inputs, Some acc, typ, None)"
| "parse_loop R inputs typ acc (tok # toks) =
     (let typ1 = (if length typ = 0 then tk_Type tok else typ) in
      if typ1 \<noteq> tk_Type tok then
        ([], None, [],
         WithMessagef None ''tokens must have the same type [%s]!=[%s]'' [typ1, tk_Type tok])
      else
        (case ToQuantity R (tk_Quantity tok) 65 of
           Inl err \<Rightarrow>
             ([], None, [],
              WithMessagef (Some err) ''failed unmarshalling token quantity [%s]'' [tk_Quantity tok])
         | Inr q \<Rightarrow> parse_loop R inputs typ1 (q_Add R acc q) toks))"

definition parseInputIDs ::
  "'q request_env \<Rightarrow> token_id list \<Rightarrow> token_id list \<times> 'q option \<times> string \<times> error option" where
  "parseInputIDs R inputs =
     (case GetTokens R inputs of
        Inl err \<Rightarrow> ([], None, [], WithMessagef (Some err) ''failed querying tokens ids'' [])
      | Inr inputTokens \<Rightarrow> parse_loop R inputs [] (NewQuantityFromUInt64 R 0) inputTokens)"

subsection \<open>prepareTransfer\<close>

fun check_owners :: "bool \<Rightarrow> bytes list \<Rightarrow> error option" where
  "check_owners redeem [] = None"
| "check_owners redeem (owner # owners) =
     (if redeem then
        (if \<not> IsNone owner then Some (Errorf ''all recipients must be nil'' [])
         else check_owners redeem owners)
      else
        (if IsNone owner then Some (Errorf ''all recipients should be defined'' [])
         else check_owners redeem owners))"

text \<open>
  \<open>for i, value := range values\<close>: the running \<open>uint64\<close> sum and the output tokens.
\<close>

fun output_loop ::
  "'q request_env \<Rightarrow> string \<Rightarrow> bytes list \<Rightarrow> nat \<Rightarrow> nat list \<Rightarrow> nat \<Rightarrow> token list \<Rightarrow>
   error + (nat \<times> token list)" where
  "output_loop R typ owners i [] outputSum outputTokens = Inr (outputSum, outputTokens)"
| "output_loop R typ owners i (value # values) outputSum outputTokens =
     (if length owners \<le> i then Inl (Panic ''index out of range'')
      else output_loop R typ owners (Suc i) values ((outputSum + value) mod 2 ^ 64)
             (outputTokens @
                [\<lparr>tk_Owner = owners ! i, tk_Type = typ,
                  tk_Quantity = Decimal R (NewQuantityFromUInt64 R value)\<rparr>]))"

text \<open>The inputs: parsed and certified when passed as an option (lines 818 to 826).\<close>

definition passed_inputs ::
  "'q request_env \<Rightarrow> 'q TransferOptions \<Rightarrow> string \<Rightarrow> error + (token_id list \<times> 'q option \<times> string)" where
  "passed_inputs R transferOpts typ0 =
     (if length (to_TokenIDs transferOpts) \<noteq> 0 then
        (case parseInputIDs R (to_TokenIDs transferOpts) of
           (ids, inputSum, typ, Some err) \<Rightarrow> Inl (Wrapf err ''failed parsing passed input tokens'' [])
         | (ids, inputSum, typ, None) \<Rightarrow>
            (case RequestCertification R ids of
               Some err \<Rightarrow> Inl (Wrapf err ''failed certifiying inputs'' [])
             | None \<Rightarrow> Inr (ids, inputSum, typ)))
      else Inr ([], None, typ0))"

text \<open>The inputs: selected when none was passed as an option (lines 842 to 855).\<close>

definition selected_inputs ::
  "'q request_env \<Rightarrow> string \<Rightarrow> OwnerWallet \<Rightarrow> 'q TransferOptions \<Rightarrow> string \<Rightarrow> nat \<Rightarrow>
   token_id list \<times> 'q option \<Rightarrow> error + (token_id list \<times> 'q option)" where
  "selected_inputs R txID wallet transferOpts typ outputSum passed =
     (if length (to_TokenIDs transferOpts) = 0 then
        (case (case to_Selector transferOpts of
                 Some selector \<Rightarrow> Inr selector
               | None \<Rightarrow>
                  (case NewSelector R txID of
                     Inl err \<Rightarrow> Inl (Wrapf err ''failed getting default selector'' [])
                   | Inr selector \<Rightarrow> Inr selector)) of
           Inl err \<Rightarrow> Inl err
         | Inr selector \<Rightarrow>
            (case Select selector wallet (Decimal R (NewQuantityFromUInt64 R outputSum)) typ of
               Inl err \<Rightarrow> Inl (Wrapf err ''failed selecting tokens'' [])
             | Inr (ids, inputSum) \<Rightarrow> Inr (ids, inputSum)))
      else Inr passed)"

text \<open>"Is there a rest?" (lines 857 to 874).\<close>

definition reassign_rest ::
  "'q request_env \<Rightarrow> OwnerWallet \<Rightarrow> string \<Rightarrow> token_id list \<Rightarrow> 'q option \<Rightarrow> 'q \<Rightarrow> token list \<Rightarrow>
   error + (token_id list \<times> token list)" where
  "reassign_rest R wallet typ tokenIDs inputSum qOutputSum outputTokens =
     (case inputSum of
        None \<Rightarrow> Inl (Panic ''invalid memory address or nil pointer dereference'')
      | Some s \<Rightarrow>
         if q_Cmp R s qOutputSum = 1 then
           (let diff = q_Sub R s qOutputSum in
            case ow_GetRecipientIdentity wallet of
              Inl err \<Rightarrow>
                Inl (WithMessage err
                       ''failed getting recipient identity for the rest, wallet [%s]'' [ow_ID wallet])
            | Inr pseudonym \<Rightarrow>
                Inr (tokenIDs,
                     outputTokens @
                       [\<lparr>tk_Owner = pseudonym, tk_Type = typ, tk_Quantity = Decimal R diff\<rparr>]))
         else Inr (tokenIDs, outputTokens))"

definition prepareTransfer ::
  "'q request_env \<Rightarrow> string \<Rightarrow> bool \<Rightarrow> OwnerWallet \<Rightarrow> string \<Rightarrow> nat list \<Rightarrow> bytes list \<Rightarrow>
   'q TransferOption list \<Rightarrow> error + (token_id list \<times> token list)" where
  "prepareTransfer R txID redeem wallet typ0 values owners opts =
     (case compileTransferOptions opts of
        Inl err \<Rightarrow> Inl (Wrapf err ''failed compiling transfer options [%v]'' [])
      | Inr transferOpts \<Rightarrow>
         (case check_owners redeem owners of
            Some err \<Rightarrow> Inl err
          | None \<Rightarrow>
             (case passed_inputs R transferOpts typ0 of
                Inl err \<Rightarrow> Inl err
              | Inr (tokenIDs0, inputSum0, typ) \<Rightarrow>
                 (case output_loop R typ owners 0 values 0 [] of
                    Inl err \<Rightarrow> Inl err
                  | Inr (outputSum, outputTokens) \<Rightarrow>
                     (case selected_inputs R txID wallet transferOpts typ outputSum
                             (tokenIDs0, inputSum0) of
                        Inl err \<Rightarrow> Inl err
                      | Inr (tokenIDs, inputSum) \<Rightarrow>
                         reassign_rest R wallet typ tokenIDs inputSum
                           (NewQuantityFromUInt64 R outputSum) outputTokens)))))"

section \<open>Example instances\<close>

text \<open>
  Concrete collaborators and inputs, on which the theorems below are instantiated.
  The key package of the examples derives a token key from the transaction identifier
  and the output index.
\<close>

definition example_keys :: keys_pkg where
  "example_keys =
     \<lparr>CreateTokenKey =
        (\<lambda>txID index. Inr (txID @ (if index = 0 then ''.out0'' else if index = 1 then ''.out1''
                                     else ''.outN''))),
      CreateTokenRequestKey = (\<lambda>txID. Inr (txID @ ''.request'')),
      CreateSetupKey = Inr ''setup'',
      Action = ''action'', ActionIssue = ''issue'', ActionTransfer = ''transfer''\<rparr>"

text \<open>A ledger that holds public parameters and one unspent token.\<close>

definition example_ledger :: rwset where
  "example_ledger =
     \<lparr>state = [(''ns'', ''setup'') \<mapsto> ''pp'', (''ns'', ''tx0.out0'') \<mapsto> ''token''],
      state_metadata = Map.empty,
      faulty = (\<lambda>k. False)\<rparr>"

definition example_translator :: translator where
  "example_translator = New (\<lambda>creator tokenType. None) ''tx1'' example_ledger ''ns''"

text \<open>A transfer that spends one input into one new output.\<close>

definition example_transfer :: "bool \<Rightarrow> string \<Rightarrow> transfer_action" where
  "example_transfer gh input =
     \<lparr>ta_GetInputs = Inr [input], ta_IsGraphHiding = gh, ta_NumOutputs = 1,
      ta_IsRedeemAt = (\<lambda>i. False), ta_SerializeOutputAt = (\<lambda>i. Inr ''output'')\<rparr>"

definition example_anonym_env :: "int anonym_env" where
  "example_anonym_env =
     \<lparr>Signature_Deserialize =
        (\<lambda>raw. if raw = [] then Inl (Errorf ''unexpected end of JSON input'' [])
               else Inr \<lparr>AuthorizationCorrectness = take 1 raw, TypeCorrectness = drop 1 raw\<rparr>),
      av_g1_Sub = (\<lambda>a b. a - b),
      o2omp_Verify =
        (\<lambda>commitments message pp bitLength proof.
           if proof = ''A'' \<and> 0 \<in> set commitments then None
           else Some (Errorf ''verification of one out of many proof failed'' [])),
      TypeCorrectnessVerifier_Verify =
        (\<lambda>typeNym tok message pp proof.
           if proof = ''T'' then None else Some (Errorf ''invalid type correctness proof'' []))\<rparr>"

definition example_anonym_verifier :: "int anonym_Verifier" where
  "example_anonym_verifier =
     \<lparr>av_PedersenParams = [2, 3, 5], Issuers = [11, 13],
      Auth = \<lparr>auth_Type = 13, auth_Token = 17\<rparr>, BitLength = 1\<rparr>"

text \<open>
  For the proof systems the examples take the integers for the scalars and for every
  group (a group element is its discrete logarithm), so that scalar multiplication is
  multiplication and the group operation is addition.
\<close>

definition example_sp_env :: "(int, int, int, int, int) sp_env" where
  "example_sp_env =
     \<lparr>sp_GetRand = None,
      sp_Order = 101,
      sp_ModMul = (\<lambda>a b m. (a * b) mod m),
      sp_HashModOrder = (\<lambda>raw. int (length raw) mod 101),
      sp_g1_Mul = (\<lambda>g z. g * z),
      sp_g1_Add = (\<lambda>a b. a + b),
      sp_g2_Mul = (\<lambda>g z. g * z),
      sp_g2_Add = (\<lambda>a b. a + b),
      Pairing = (\<lambda>a b c d. a * b + c * d),
      FinalExp = (\<lambda>t. t),
      gt_Bytes = (\<lambda>t. ''t''),
      sig_Randomize = (\<lambda>s. Inr s),
      sig_R = (\<lambda>s. s),
      sig_S_Add = (\<lambda>s g. s + g),
      sig_Serialize = (\<lambda>s. Inr ''s''),
      sp_GetG1Array_Bytes = (\<lambda>gs. replicate (length (concat gs)) CHR ''g''),
      sp_GetG2Array_Bytes = (\<lambda>gs. replicate (length (concat gs)) CHR ''h''),
      GetBytesArray = concat,
      sp_SchnorrProver_Prove = (\<lambda>c rs ws. Inr (map2 (\<lambda>r w. (r + c * w) mod 101) rs ws)),
      SchnorrVerifier_RecomputeCommitment =
        (\<lambda>pp statement proof c. sum_list (map2 (\<lambda>g z. g * z) pp proof) - statement * c),
      POKVerifier_RecomputeCommitment = (\<lambda>P Q PK pok. Inr 0)\<rparr>"

text \<open>
  A verifier for signatures on one hidden message (the public key has three elements),
  and a proof for it that carries no hidden response at all.
\<close>

definition example_sig_verifier :: "(int, int, int) SigVerifier" where
  "example_sig_verifier =
     \<lparr>sv_P = 1, sv_Q = 1, sv_PK = [2, 3, 5], HiddenIndices = [0], DisclosedIndices = [],
      Disclosed = [], sv_PedersenParams = [7, 11], CommitmentToMessages = 13\<rparr>"

definition example_truncated_proof :: "(int, int, int) SigProof" where
  "example_truncated_proof =
     \<lparr>sp_Challenge = 1, sp_Hidden = [], sp_Hash = 1, sp_Signature = 1,
      sp_SigBlindingFactor = 1, sp_ComBlindingFactor = 1, sp_Commitment = 13\<rparr>"

definition example_rp_env :: "(int, int, int, int) rp_env" where
  "example_rp_env =
     \<lparr>GetRand = None,
      Order = 2 ^ 254,
      NewZr = 0,
      NewZrInt = (\<lambda>n. n),
      Int64 = (\<lambda>z. z),
      ModAdd = (\<lambda>a b m. (a + b) mod m),
      ModMul = (\<lambda>a b m. (a * b) mod m),
      HashModOrder = (\<lambda>raw. int (length raw)),
      NewZrFromBytes = (\<lambda>raw. int (length raw)),
      sha256_Sum256 = (\<lambda>raw. raw),
      g1_Mul = (\<lambda>g z. g * z),
      g1_Add = (\<lambda>a b. a + b),
      GetG1Array_Bytes = (\<lambda>gs. replicate (length (concat gs)) CHR ''g''),
      GetG2Array_Bytes = (\<lambda>gs. replicate (length (concat gs)) CHR ''h''),
      ComputePedersenCommitment =
        (\<lambda>zs gs. if length zs \<noteq> length gs
                  then Inl (Errorf ''cannot commit: lengths differ'' [])
                  else Inr (sum_list (map2 (\<lambda>g z. g * z) gs zs))),
      SchnorrProver_Prove =
        (\<lambda>c rs ws. if length rs \<noteq> length ws
                    then Inl (Errorf ''cannot prove: lengths differ'' [])
                    else Inr (map2 (\<lambda>r w. (r + c * w) mod 2 ^ 254) rs ws)),
      MembershipProver_Prove = (\<lambda>w com P Q PK pp. Inr ''membership proof''),
      json_Marshal = (\<lambda>proof. Inr ''proof'')\<rparr>"

text \<open>
  A prover for one token of type "ABC" with value \<open>v\<close>, for base 3 (three membership
  signatures) and the given exponent; the token commits to the witness under the
  Pedersen parameters 2, 3 and 5.
\<close>

definition example_prover :: "int \<Rightarrow> int \<Rightarrow> (int, int, int, int) rp_Prover" where
  "example_prover exponent v =
     NewProver [\<lparr>tw_Type = ''ABC'', tw_Value = v, tw_BlindingFactor = 7\<rparr>]
       [2 * 3 + 3 * v + 5 * 7] [100, 101, 102] exponent [2, 3, 5] [11, 13, 17, 19] 23 29"

definition example_randomness :: "int Randomness" where
  "example_randomness =
     \<lparr>rnd_bf = (\<lambda>k i. 1 + i), rnd_Type = 31, rnd_Value = (\<lambda>k. 37),
      rnd_CommitmentBlindingFactor = (\<lambda>k. 41), rnd_TokenBlindingFactor = (\<lambda>k. 43)\<rparr>"

text \<open>The value of a digit list, least significant digit first.\<close>

primrec digits_value :: "int \<Rightarrow> int list \<Rightarrow> int" where
  "digits_value b [] = 0"
| "digits_value b (d # ds) = d + b * digits_value b ds"

text \<open>
  A vault with one token of five units of type "ABC", owned by the sender; quantities
  are natural numbers, written with one decimal digit.
\<close>

definition example_input :: token_id where
  "example_input = \<lparr>TxId = ''tx0'', Index = 0\<rparr>"

definition example_request_env :: "nat request_env" where
  "example_request_env =
     \<lparr>GetTokens =
        (\<lambda>ids. if ids = [example_input]
               then Inr [\<lparr>tk_Owner = ''alice'', tk_Type = ''ABC'', tk_Quantity = ''5''\<rparr>]
               else Inl (Errorf ''token not found'' [])),
      RequestCertification = (\<lambda>ids. None),
      NewSelector = (\<lambda>txID. Inl (Errorf ''no selector'' [])),
      ToQuantity =
        (\<lambda>s precision.
           case map_of [(''0'', 0), (''1'', 1), (''2'', 2), (''3'', 3), (''4'', 4), (''5'', 5),
                        (''6'', 6), (''7'', 7), (''8'', 8), (''9'', 9)] s of
             None \<Rightarrow> Inl (Errorf ''invalid quantity'' [s])
           | Some n \<Rightarrow> Inr n),
      NewQuantityFromUInt64 = (\<lambda>n. n),
      q_Add = (\<lambda>a b. a + b),
      q_Sub = (\<lambda>a b. a - b),
      q_Cmp = (\<lambda>a b. if a < b then - 1 else if a = b then 0 else 1),
      Decimal =
        (\<lambda>n. if n < 10 then [''0123456789'' ! n] else ''many'')\<rparr>"

definition example_wallet :: OwnerWallet where
  "example_wallet = \<lparr>ow_ID = ''alice'', ow_GetRecipientIdentity = Inr ''alice''\<rparr>"

text \<open>An issue of two outputs, and a transfer whose second output is redeemed.\<close>

definition example_issue :: issue_action where
  "example_issue =
     \<lparr>ia_NumOutputs = 2, ia_GetSerializedOutputs = Inr [''first'', ''second''],
      ia_GetIssuer = ''issuer''\<rparr>"

definition example_redeem :: transfer_action where
  "example_redeem =
     \<lparr>ta_GetInputs = Inr [''tx0.out0''], ta_IsGraphHiding = False, ta_NumOutputs = 2,
      ta_IsRedeemAt = (\<lambda>i. i = 1), ta_SerializeOutputAt = (\<lambda>i. Inr ''rest'')\<rparr>"

text \<open>
  A vault whose tokens carry quantities in decimal notation: \<open>decimal\<close> writes a natural
  number, \<open>parse_decimal\<close> reads one, and \<open>vault_request_env toks\<close> answers a query for as
  many identifiers as it holds tokens with these tokens.  Quantities are natural numbers
  of at most \<open>precision\<close> bits.
\<close>

fun decimal :: "nat \<Rightarrow> string" where
  "decimal n =
     (if n < 10 then [''0123456789'' ! n]
      else decimal (n div 10) @ [''0123456789'' ! (n mod 10)])"

declare decimal.simps [simp del]

fun parse_decimal :: "nat \<Rightarrow> string \<Rightarrow> nat option" where
  "parse_decimal acc [] = Some acc"
| "parse_decimal acc (c # cs) =
     (if 48 \<le> (of_char c :: nat) \<and> (of_char c :: nat) < 58
      then parse_decimal (10 * acc + (of_char c - 48)) cs
      else None)"

definition vault_request_env :: "token list \<Rightarrow> nat request_env" where
  "vault_request_env toks =
     \<lparr>GetTokens =
        (\<lambda>ids. if length ids = length toks then Inr toks
               else Inl (Errorf ''token not found'' [])),
      RequestCertification = (\<lambda>ids. None),
      NewSelector = (\<lambda>txID. Inl (Errorf ''no selector'' [])),
      ToQuantity =
        (\<lambda>s precision.
           case (if s = [] then None else parse_decimal 0 s) of
             None \<Rightarrow> Inl (Errorf ''invalid input [%s]'' [s])
           | Some n \<Rightarrow>
               if n < 2 ^ precision then Inr n
               else Inl (Errorf ''%s has precision > %d'' [s])),
      NewQuantityFromUInt64 = (\<lambda>n. n),
      q_Add = (\<lambda>a b. a + b),
      q_Sub = (\<lambda>a b. a - b),
      q_Cmp = (\<lambda>a b. if a < b then - 1 else if a = b then 0 else 1),
      Decimal = decimal\<rparr>"

text \<open>
  Two inputs of the sender: of 70 and 30 units of type "ABC", and the same with the
  second token of type "XYZ".
\<close>

definition scenario_inputs :: "token_id list" where
  "scenario_inputs = [\<lparr>TxId = ''tx0'', Index = 0\<rparr>, \<lparr>TxId = ''tx0'', Index = 1\<rparr>]"

definition scenario_vault :: "token list" where
  "scenario_vault =
     [\<lparr>tk_Owner = ''alice'', tk_Type = ''ABC'', tk_Quantity = ''70''\<rparr>,
      \<lparr>tk_Owner = ''alice'', tk_Type = ''ABC'', tk_Quantity = ''30''\<rparr>]"

definition mixed_vault :: "token list" where
  "mixed_vault =
     [\<lparr>tk_Owner = ''alice'', tk_Type = ''ABC'', tk_Quantity = ''70''\<rparr>,
      \<lparr>tk_Owner = ''alice'', tk_Type = ''XYZ'', tk_Quantity = ''30''\<rparr>]"

section \<open>Properties of the ledger translator\<close>

subsection \<open>Whole-request anti-replay\<close>

text \<open>
  Claim C7.  \<open>CommitTokenRequest\<close> writes the raw request under the key derived from the
  anchor exactly when no value is stored under that key yet; when one is stored it
  returns the error "token request with same ID already exists" and writes nothing.
  Whenever it returns an error, for this or for any other reason, the translator and
  its storage are as they were.
\<close>

theorem CommitTokenRequest_writes_once:
  "(fst (CommitTokenRequest K w raw) \<noteq> None \<longrightarrow> snd (CommitTokenRequest K w raw) = w) \<and>
   (CreateTokenRequestKey K (TxID w) = Inr key \<longrightarrow> \<not> faulty (RWSet w) (namespace w, key) \<longrightarrow>
      CommitTokenRequest K w raw =
        (if state (RWSet w) (namespace w, key) = None
         then (None, w\<lparr>RWSet := (RWSet w)\<lparr>state := (state (RWSet w))((namespace w, key) \<mapsto> raw)\<rparr>\<rparr>)
         else (Some (Wrapf (Errorf ''token request with same ID already exists'' [])
                       ''failed to write token request %s'' [TxID w]), w)))"
  by (auto simp: CommitTokenRequest_def GetState_def SetState_def split: sum.splits if_splits)

theorem CommitTokenRequest_writes_once_witness:
  "CreateTokenRequestKey example_keys (TxID example_translator) = Inr ''tx1.request'' \<and>
   \<not> faulty (RWSet example_translator) (namespace example_translator, ''tx1.request'') \<and>
   state (RWSet example_translator) (namespace example_translator, ''tx1.request'') = None \<and>
   fst (CommitTokenRequest example_keys example_translator ''request'') = None \<and>
   state (RWSet (snd (CommitTokenRequest example_keys example_translator ''request'')))
     (''ns'', ''tx1.request'') = Some ''request'' \<and>
   fst (CommitTokenRequest example_keys
          (snd (CommitTokenRequest example_keys example_translator ''request'')) ''again'') \<noteq> None \<and>
   snd (CommitTokenRequest example_keys
          (snd (CommitTokenRequest example_keys example_translator ''request'')) ''again'')
     = snd (CommitTokenRequest example_keys example_translator ''request'')"
proof -
  let ?w1 = "example_translator\<lparr>RWSet := (RWSet example_translator)
               \<lparr>state := (state (RWSet example_translator))((''ns'', ''tx1.request'') \<mapsto> ''request'')\<rparr>\<rparr>"
  have k: "CreateTokenRequestKey example_keys (TxID example_translator) = Inr ''tx1.request''"
    by (simp add: example_keys_def example_translator_def New_def)
  have f: "\<not> faulty (RWSet example_translator) (namespace example_translator, ''tx1.request'')"
    by (simp add: example_translator_def New_def example_ledger_def)
  have s: "state (RWSet example_translator) (namespace example_translator, ''tx1.request'') = None"
    by (simp add: example_translator_def New_def example_ledger_def)
  have ns: "namespace example_translator = ''ns''"
    by (simp add: example_translator_def New_def)
  have first: "CommitTokenRequest example_keys example_translator ''request'' = (None, ?w1)"
    using CommitTokenRequest_writes_once[of example_keys example_translator "''request''" "''tx1.request''"]
      k f s by (simp add: ns)
  have k1: "CreateTokenRequestKey example_keys (TxID ?w1) = Inr ''tx1.request''"
    using k by simp
  have f1: "\<not> faulty (RWSet ?w1) (namespace ?w1, ''tx1.request'')"
    using f by simp
  have second: "fst (CommitTokenRequest example_keys ?w1 ''again'') \<noteq> None
                \<and> snd (CommitTokenRequest example_keys ?w1 ''again'') = ?w1"
    using CommitTokenRequest_writes_once[of example_keys ?w1 "''again''" "''tx1.request''"] k1 f1
    by (simp add: ns)
  show ?thesis using k f s first second by simp
qed

subsection \<open>Double spending\<close>

lemma spendTokens_state:
  "spendTokens ns rw ids gh = (None, rw') \<Longrightarrow>
     state rw' x = (if fst x = ns \<and> snd x \<in> set ids then (if gh then Some ''true'' else None)
                    else state rw x)
   \<and> state_metadata rw' x = (if \<not> gh \<and> fst x = ns \<and> snd x \<in> set ids then None
                              else state_metadata rw x)
   \<and> faulty rw' = faulty rw"
proof (induction ids arbitrary: rw)
  case Nil
  then show ?case by simp
next
  case (Cons tid ids)
  show ?case
  proof (cases gh)
    case True
    with Cons.prems obtain rw1 where s1: "SetState rw ns tid ''true'' = (None, rw1)"
      and rest: "spendTokens ns rw1 ids gh = (None, rw')"
      by (auto split: prod.splits option.splits)
    from s1 have rw1: "rw1 = rw\<lparr>state := (state rw)((ns, tid) \<mapsto> ''true'')\<rparr>"
      by (auto simp: SetState_def split: if_splits)
    from Cons.IH[OF rest] show ?thesis using True by (cases x) (auto simp: rw1)
  next
    case False
    with Cons.prems obtain rw1 rw2 where s1: "DeleteState rw ns tid = (None, rw1)"
      and s2: "SetStateMetadata rw1 ns tid None = (None, rw2)"
      and rest: "spendTokens ns rw2 ids gh = (None, rw')"
      by (auto split: prod.splits option.splits)
    from s1 have rw1: "rw1 = rw\<lparr>state := (state rw)((ns, tid) := None)\<rparr>"
      by (auto simp: DeleteState_def split: if_splits)
    from s2 have rw2: "rw2 = rw1\<lparr>state_metadata := (state_metadata rw1)((ns, tid) := None)\<rparr>"
      by (auto simp: SetStateMetadata_def split: if_splits)
    from Cons.IH[OF rest] show ?thesis using False by (cases x) (auto simp: rw1 rw2)
  qed
qed

lemma checkInputs_spent:
  "key \<in> set keys \<Longrightarrow>
   (if gh then len (state (RWSet w) (namespace w, key)) \<noteq> 0
    else len (state (RWSet w) (namespace w, key)) = 0) \<Longrightarrow>
   checkInputs w gh keys \<noteq> None"
  by (induction keys) (auto simp: GetState_def split: sum.splits if_splits)

lemma commitTransferAction_success:
  assumes "commitTransferAction K w t = (None, w')"
  obtains rw ids where
    "writeTransferOutputs K (namespace w) (TxID w) (counter w) t (RWSet w)
       (indices (ta_NumOutputs t)) = (None, rw)"
    "ta_GetInputs t = Inr ids"
    "spendTokens (namespace w) rw ids (ta_IsGraphHiding t) = (None, RWSet w')"
    "w' = w\<lparr>RWSet := RWSet w', counter := counter w + ta_NumOutputs t\<rparr>"
  using assms
  by (auto simp: commitTransferAction_def Let_def split: prod.splits option.splits sum.splits)


lemma commitTransferAction_fixed:
  "namespace (snd (commitTransferAction K w t)) = namespace w \<and>
   TxID (snd (commitTransferAction K w t)) = TxID w"
  by (auto simp: commitTransferAction_def Let_def split: prod.splits option.splits sum.splits)

lemmas example_defs =
  example_keys_def example_translator_def New_def example_ledger_def example_transfer_def



subsection \<open>Setup actions\<close>

text \<open>
  Claim C10.  The check stage accepts every setup action.  \<open>Write\<close> on a setup action
  stores the action's parameters under the setup key, whatever is stored there before
  (the only failures are those of the action's accessor, of the key package and of the
  storage), and leaves the running output counter as it was.
\<close>

theorem setup_write_unconditional:
  "checkAction K w (SetupAction a) = None \<and>
   counter (snd (Write K w (SetupAction a))) = counter w \<and>
   (sa_GetSetupParameters a = Inr raw \<longrightarrow> CreateSetupKey K = Inr setupKey \<longrightarrow>
    \<not> faulty (RWSet w) (namespace w, setupKey) \<longrightarrow>
      Write K w (SetupAction a) =
        (None, w\<lparr>RWSet := (RWSet w)\<lparr>state := (state (RWSet w))((namespace w, setupKey) \<mapsto> raw)\<rparr>\<rparr>))"
  by (auto simp: checkAction_def Write_def checkProcess_def commitProcess_def commitAction_def
        commitSetupAction_def SetState_def split: sum.splits)

text \<open>The example ledger already holds parameters; a setup write replaces them.\<close>

theorem setup_write_unconditional_witness:
  "state (RWSet example_translator) (namespace example_translator, ''setup'') = Some ''pp'' \<and>
   CreateSetupKey example_keys = Inr ''setup'' \<and>
   \<not> faulty (RWSet example_translator) (namespace example_translator, ''setup'') \<and>
   fst (Write example_keys example_translator
          (SetupAction \<lparr>sa_GetSetupParameters = Inr ''new pp''\<rparr>)) = None \<and>
   state (RWSet (snd (Write example_keys example_translator
          (SetupAction \<lparr>sa_GetSetupParameters = Inr ''new pp''\<rparr>)))) (''ns'', ''setup'')
     = Some ''new pp'' \<and>
   counter (snd (Write example_keys example_translator
          (SetupAction \<lparr>sa_GetSetupParameters = Inr ''new pp''\<rparr>))) = 0"
  using setup_write_unconditional[of example_keys example_translator
          "\<lparr>sa_GetSetupParameters = Inr ''new pp''\<rparr>" "''new pp''" "''setup''"]
  by (simp add: example_defs)

section \<open>Properties of the anonymous issuer authorization\<close>

text \<open>
  Claim C9.  \<open>Verify\<close> of package anonym returns no error exactly when there are three
  Pedersen parameters, the signature deserializes, the one-out-of-many proof verifies
  against the commitments \<open>Auth.Type - issuer\<close> of all issuers, and the type-correctness
  proof verifies.  In every other case it returns an error.
\<close>

theorem anonym_Verify_fail_closed:
  "anonym_Verify E v message rawsig = None \<longleftrightarrow>
     (length (av_PedersenParams v) = 3 \<and>
      (\<exists>sig. Signature_Deserialize E rawsig = Inr sig \<and>
         o2omp_Verify E (map (\<lambda>i. av_g1_Sub E (auth_Type (Auth v)) i) (Issuers v)) message
           [av_PedersenParams v ! 0, av_PedersenParams v ! 2] (BitLength v)
           (AuthorizationCorrectness sig) = None \<and>
         TypeCorrectnessVerifier_Verify E (auth_Type (Auth v)) (auth_Token (Auth v)) message
           (av_PedersenParams v) (TypeCorrectness sig) = None))"
  by (auto simp: anonym_Verify_def Let_def split: sum.splits option.splits)

text \<open>
  On the example verifier a signature with both proofs valid is accepted; one with a
  wrong type-correctness proof, one with a wrong authorization proof, an empty one, and
  a valid one under two Pedersen parameters are refused.
\<close>

theorem anonym_Verify_fail_closed_witness:
  "anonym_Verify example_anonym_env example_anonym_verifier ''msg'' ''AT'' = None \<and>
   anonym_Verify example_anonym_env example_anonym_verifier ''msg'' ''AX'' \<noteq> None \<and>
   anonym_Verify example_anonym_env example_anonym_verifier ''msg'' ''XT'' \<noteq> None \<and>
   anonym_Verify example_anonym_env example_anonym_verifier ''msg'' [] \<noteq> None \<and>
   anonym_Verify example_anonym_env (example_anonym_verifier\<lparr>av_PedersenParams := [2, 3]\<rparr>)
     ''msg'' ''AT'' \<noteq> None"
proof -
  have a: "anonym_Verify example_anonym_env example_anonym_verifier ''msg'' ''AT'' = None"
    unfolding anonym_Verify_fail_closed
    by (simp add: example_anonym_env_def example_anonym_verifier_def)
  have b: "anonym_Verify example_anonym_env example_anonym_verifier ''msg'' ''AX'' \<noteq> None"
    unfolding anonym_Verify_fail_closed
    by (simp add: example_anonym_env_def example_anonym_verifier_def)
  have c: "anonym_Verify example_anonym_env example_anonym_verifier ''msg'' ''XT'' \<noteq> None"
    unfolding anonym_Verify_fail_closed
    by (simp add: example_anonym_env_def example_anonym_verifier_def)
  have d: "anonym_Verify example_anonym_env example_anonym_verifier ''msg'' [] \<noteq> None"
    unfolding anonym_Verify_fail_closed
    by (simp add: example_anonym_env_def example_anonym_verifier_def)
  have e: "anonym_Verify example_anonym_env (example_anonym_verifier\<lparr>av_PedersenParams := [2, 3]\<rparr>)
             ''msg'' ''AT'' \<noteq> None"
    unfolding anonym_Verify_fail_closed
    by (simp add: example_anonym_env_def example_anonym_verifier_def)
  show ?thesis using a b c d e by simp
qed

section \<open>Properties of the signature-based selective-disclosure proof\<close>

text \<open>
  The prover refuses a public key whose length is not the number of hidden and
  disclosed indices plus 2: \<open>computeCommitment\<close> returns an error, and so does \<open>Prove\<close>.
\<close>

lemma SigProver_Prove_rejects_length_mismatch:
  "int (length (sv_PK p)) \<noteq> int (length (HiddenIndices p)) + int (length (DisclosedIndices p)) + 2
   \<Longrightarrow> \<exists>err. SigProver_Prove E p smp = Inl err"
  by (auto simp: SigProver_Prove_def sp_computeCommitment_def obfuscateSignature_def
        split: sum.splits option.splits)

text \<open>
  \<open>recomputeCommitments\<close> refuses a proof whose number of hidden responses plus the
  number of disclosed values is not the length of the public key minus 2.
\<close>

lemma recomputeCommitments_rejects_length_mismatch:
  "int (length (sp_Hidden p)) + int (length (Disclosed v)) \<noteq> int (length (sv_PK v)) - 2 \<Longrightarrow>
   recomputeCommitments E v p =
     Inl (Errorf ''length of signature public key does not match number of signed messages'' [])"
  by (simp add: recomputeCommitments_def)

text \<open>
  Claim C5.  The claim asks \<open>SigVerifier.Verify\<close> to return an error for every proof whose
  number of hidden responses plus the number of disclosed values differs from the
  length of the public key minus 2.  The code does not: \<open>Verify\<close> answers the error of
  \<open>recomputeCommitments\<close> with \<open>return nil\<close>, so every such proof is accepted.
\<close>

theorem SigVerifier_Verify_accepts_length_mismatch:
  "int (length (sp_Hidden p)) + int (length (Disclosed v)) \<noteq> int (length (sv_PK v)) - 2 \<Longrightarrow>
   SigVerifier_Verify E v p = None"
  by (simp add: SigVerifier_Verify_def recomputeCommitments_def)

text \<open>
  The example verifier expects one hidden message; the proof without any hidden
  response is accepted.
\<close>

theorem SigVerifier_Verify_accepts_length_mismatch_witness:
  "int (length (sp_Hidden example_truncated_proof)) + int (length (Disclosed example_sig_verifier))
     \<noteq> int (length (sv_PK example_sig_verifier)) - 2 \<and>
   SigVerifier_Verify example_sp_env example_sig_verifier example_truncated_proof = None"
  using SigVerifier_Verify_accepts_length_mismatch
          [of example_truncated_proof example_sig_verifier example_sp_env]
  by (simp add: example_truncated_proof_def example_sig_verifier_def)

section \<open>Properties of the range proof\<close>

subsection \<open>Evaluation of the arithmetic\<close>

lemmas float_eval = float64_round_def bit_length.simps Let_def pow_loop.simps math_Pow_def
  int64_of_float64_def int64_of_uint64_def int64_pow_def

lemma list_update_Cons_numeral: "(x # xs)[numeral n := y] = x # xs[pred_numeral n := y]"
  by (simp add: numeral_eq_Suc)

lemma replicate_numeral_Cons: "replicate (numeral n) x = x # replicate (pred_numeral n) x"
  by (simp add: numeral_eq_Suc)

lemmas list_eval = list_update_Cons_numeral replicate_numeral_Cons

lemma commit_loop_succeeds:
  assumes "2 \<le> length (rp_PedersenParams p)"
      and "\<And>zs gs. length zs = 2 \<Longrightarrow> length gs = 2 \<Longrightarrow> \<exists>c. ComputePedersenCommitment E zs gs = Inr c"
      and "\<And>j. 0 \<le> j \<Longrightarrow> j < rp_Exponent p \<Longrightarrow>
             0 \<le> values ! nat j \<and> values ! nat j < int (length (Signatures p))"
      and "0 \<le> i"
  shows "\<exists>coms' mws' cbf'. commit_loop E p bfs values i coms mws cbf = Inr (coms', mws', cbf')
           \<and> length coms' = length coms + nat (rp_Exponent p - i)
           \<and> length mws' = length mws + nat (rp_Exponent p - i)"
  using assms
proof (induction E p bfs "values" i coms mws cbf rule: commit_loop.induct)
  case (1 E p bfs vs i coms mws cbf)
  show ?case
  proof (cases "i < rp_Exponent p")
    case False
    then show ?thesis by (simp add: commit_loop.simps)
  next
    case True
    obtain c where c: "ComputePedersenCommitment E [NewZrInt E (vs ! nat i), bfs i]
                         (take 2 (rp_PedersenParams p)) = Inr c"
      using "1.prems"(2)[of "[NewZrInt E (vs ! nat i), bfs i]" "take 2 (rp_PedersenParams p)"]
        "1.prems"(1) by auto
    have d: "\<not> (vs ! nat i < 0 \<or> int (length (Signatures p)) \<le> vs ! nat i)"
      using "1.prems"(3)[of i] "1.prems"(4) True by auto
    have pp: "\<not> length (rp_PedersenParams p) < 2" using "1.prems"(1) by simp
    from "1.IH"[OF True refl refl pp c d "1.prems"(1) "1.prems"(2) "1.prems"(3)] "1.prems"(4)
    obtain coms' mws' cbf' where
      r: "commit_loop E p bfs vs (i + 1) (coms @ [c])
            (mws @ [\<lparr>mw_signature = Signatures p ! nat (vs ! nat i),
                     mw_value = NewZrInt E (vs ! nat i), mw_bf = bfs i\<rparr>])
            (ModAdd E cbf (ModMul E (bfs i) (NewZrInt E (int64_pow (rp_Base p) i)) (Order E)) (Order E))
          = Inr (coms', mws', cbf')"
      and l1: "length coms' = length (coms @ [c]) + nat (rp_Exponent p - (i + 1))"
      and l2: "length mws' = length (mws @ [\<lparr>mw_signature = Signatures p ! nat (vs ! nat i),
                     mw_value = NewZrInt E (vs ! nat i), mw_bf = bfs i\<rparr>]) + nat (rp_Exponent p - (i + 1))"
      by force
    have "commit_loop E p bfs vs i coms mws cbf = Inr (coms', mws', cbf')"
      using True c d pp r by (subst commit_loop.simps) (simp add: Let_def)
    moreover have "length coms' = length coms + nat (rp_Exponent p - i)"
      using l1 True by simp
    moreover have "length mws' = length mws + nat (rp_Exponent p - i)"
      using l2 True by simp
    ultimately show ?thesis by blast
  qed
qed

lemma sigproof_loop_succeeds:
  assumes "2 \<le> length (rp_PedersenParams p)"
      and "\<And>w c P Q PK pp. \<exists>sp. MembershipProver_Prove E w c P Q PK pp = Inr sp"
      and "k < length coms" "k < length mws"
      and "nat (rp_Exponent p) \<le> length (coms ! k)" "nat (rp_Exponent p) \<le> length (mws ! k)"
      and "0 \<le> i"
  shows "\<exists>mp'. sigproof_loop E p coms mws k i mp = Inr mp'"
  using assms
proof (induction E p coms mws k i mp rule: sigproof_loop.induct)
  case (1 E p coms mws k i mp)
  show ?case
  proof (cases "i < rp_Exponent p")
    case False
    then show ?thesis by (simp add: sigproof_loop.simps)
  next
    case True
    have idx: "\<not> (length coms \<le> k \<or> length (coms ! k) \<le> nat i \<or> length mws \<le> k
                  \<or> length (mws ! k) \<le> nat i)"
      using "1.prems" True by auto
    have pp: "\<not> length (rp_PedersenParams p) < 2" using "1.prems"(1) by simp
    obtain sp where sp: "MembershipProver_Prove E (mws ! k ! nat i) (coms ! k ! nat i) (rp_P p) (rp_Q p)
                   (rp_PK p) (take 2 (rp_PedersenParams p)) = Inr sp"
      using "1.prems"(2) by blast
    from "1.IH"[OF True idx pp sp "1.prems"(1,2,3,4,5,6)] "1.prems"(7)
    obtain mp' where "sigproof_loop E p coms mws k (i + 1)
                 \<lparr>Commitments = Commitments mp @ [coms ! k ! nat i],
                  SignatureProofs = SignatureProofs mp @ [sp]\<rparr> = Inr mp'"
      by force
    then have "sigproof_loop E p coms mws k i mp = Inr mp'"
      using True idx pp sp by (subst sigproof_loop.simps) simp
    then show ?thesis by blast
  qed
qed

subsection \<open>Digit decomposition\<close>

text \<open>
  Claim C4.  The claim asks for digits in \<open>[0, Base)\<close> whose weighted sum is \<open>v\<close>, for
  every \<open>v\<close> below \<open>Base ^ Exponent\<close>, computed without floating-point powers.  The code
  computes the powers with \<open>math.Pow\<close>: for base 3 and exponent 35 the divisor for the
  top digit is \<open>int64(math.Pow(3, 34)) = 3 ^ 34 - 1\<close>, and for \<open>v = 3 ^ 34 - 1\<close>, which is
  below \<open>3 ^ 35\<close>, the digits produced are 2, thirty-three times 0, and 1: their
  weighted sum is \<open>3 ^ 34 + 2\<close>, not \<open>v\<close>.
\<close>

theorem computeValues_wrong_digits:
  "computeValues 3 35 16677181699666568 = Inr (2 # replicate 33 0 @ [1]) \<and>
   digits_value 3 (2 # replicate 33 0 @ [1]) = 16677181699666571 \<and>
   (16677181699666568 :: int) = 3 ^ 34 - 1 \<and>
   int64_pow 3 34 = 3 ^ 34 - 1"
  by (simp add: computeValues_def float_eval quotient_loop.simps list_eval)

subsection \<open>Completeness\<close>

text \<open>
  Claim C1.  The claim asks \<open>Prove\<close> to succeed for every witness value in
  \<open>[0, Base ^ Exponent)\<close>.  The code does not: for base 3 and exponent 34 the bound of the
  range check is \<open>int64(math.Pow(3, 34)) = 3 ^ 34 - 1\<close>, and a first witness of value
  \<open>3 ^ 34 - 1\<close>, which lies in the range, makes \<open>Prove\<close> return an error, whatever the
  collaborators and the randomness are; when the random source is available the error
  is the range error.
\<close>

theorem Prove_refuses_value_in_range:
  assumes "rp_Base p = 3" "rp_Exponent p = 34" "tokenWitness p = tw # tws"
      and "Int64 E (tw_Value tw) = 3 ^ 34 - 1"
  shows "0 \<le> Int64 E (tw_Value tw) \<and>
         Int64 E (tw_Value tw) < int (rp_Base p) ^ nat (rp_Exponent p) \<and>
         (\<exists>err. Prove E p r = Inl err) \<and>
         (GetRand E = None \<longrightarrow> Prove E p r = Inl range_error)"
proof -
  have "computeValues 3 34 16677181699666568 = Inl range_error"
    by (simp add: computeValues_def float_eval)
  then have "computeValues (rp_Base p) (rp_Exponent p) (Int64 E (tw_Value tw)) = Inl range_error"
    using assms by simp
  then have "computeMembershipWitness E p (rnd_bf r) =
               (case GetRand E of Some err \<Rightarrow> Inl err | None \<Rightarrow> Inl range_error)"
    using assms(3) by (simp add: computeMembershipWitness_def split: option.splits)
  then show ?thesis
    using assms by (auto simp: Prove_def split: option.splits)
qed

theorem Prove_refuses_value_in_range_witness:
  "rp_Base (example_prover 34 (3 ^ 34 - 1)) = 3 \<and>
   rp_Exponent (example_prover 34 (3 ^ 34 - 1)) = 34 \<and>
   Prove example_rp_env (example_prover 34 (3 ^ 34 - 1)) example_randomness = Inl range_error"
  using Prove_refuses_value_in_range
          [of "example_prover 34 (3 ^ 34 - 1)"
              "\<lparr>tw_Type = ''ABC'', tw_Value = 3 ^ 34 - 1, tw_BlindingFactor = 7\<rparr>" "[]"
              example_rp_env example_randomness]
  by (simp add: example_prover_def NewProver_def example_rp_env_def)

subsection \<open>Refusal at proving time\<close>

lemma computeValues_3_37:
  "computeValues 3 37 450283905890997363 = Inr ([0, 1, 0] @ replicate 34 2)"
  by (simp add: computeValues_def float_eval quotient_loop.simps list_eval)

text \<open>
  Claim C6.  The claim asks \<open>Prove\<close> to return the range error whenever a witness value
  is at least \<open>Base ^ Exponent\<close>.  The code does not: for base 3 and exponent 37 the bound
  of the range check is \<open>int64(math.Pow(3, 37)) = 3 ^ 37 + 13\<close>, the value \<open>3 ^ 37\<close> passes
  it, all its digits are below 3, and \<open>Prove\<close> returns proof bytes whenever its
  collaborators succeed.
\<close>

theorem Prove_accepts_value_at_bound:
  assumes env: "GetRand E = None"
      "\<And>zs gs. length zs = 2 \<Longrightarrow> length gs = 2 \<Longrightarrow> \<exists>c. ComputePedersenCommitment E zs gs = Inr c"
      "\<And>w c P Q PK pp. \<exists>sp. MembershipProver_Prove E w c P Q PK pp = Inr sp"
      "\<And>c rs ws. length rs = length ws \<Longrightarrow>
         \<exists>ps. SchnorrProver_Prove E c rs ws = Inr ps \<and> length ps = length ws"
      "\<And>proof. \<exists>raw. json_Marshal E proof = Inr raw"
    and p: "rp_Base p = 3" "rp_Exponent p = 37" "length (Signatures p) = 3"
      "3 \<le> length (rp_PedersenParams p)" "length (rp_Token p) = 1" "tokenWitness p = [tw]"
    and v: "Int64 E (tw_Value tw) = 3 ^ 37"
  shows "\<exists>raw. Prove E p r = Inr raw"
proof -
  let ?vals = "[0, 1, 0] @ replicate 34 (2::int)"
  have vals: "computeValues (rp_Base p) (rp_Exponent p) (Int64 E (tw_Value tw)) = Inr ?vals"
    using computeValues_3_37 by (simp add: p v)
  have digits: "0 \<le> ?vals ! nat j \<and> ?vals ! nat j < int (length (Signatures p))"
    if "0 \<le> j" "j < rp_Exponent p" for j
  proof -
    have "nat j < length ?vals" using that by (simp add: p)
    then have "?vals ! nat j \<in> set ?vals" by (rule nth_mem)
    then show ?thesis by (auto simp: p)
  qed
  have pp2: "2 \<le> length (rp_PedersenParams p)" using p(4) by simp
  obtain coms0 mws0 cbf0 where
    cl: "commit_loop E p (rnd_bf r 0) ?vals 0 [] [] (NewZr E) = Inr (coms0, mws0, cbf0)"
    and lc: "length coms0 = 37" and lm: "length mws0 = 37"
    using commit_loop_succeeds[OF pp2 env(2) digits, of 0 "rnd_bf r 0" "[]" "[]" "NewZr E"]
    by (auto simp: p)
  have cmw: "computeMembershipWitness E p (rnd_bf r) = Inr ([coms0], [mws0], [cbf0])"
    using vals cl by (simp add: computeMembershipWitness_def env(1) p(6))
  obtain t where t: "rp_Token p = [t]"
    using p(5) by (cases "rp_Token p") auto
  obtain mp where mp: "sigproof_loop E p [coms0] [mws0] 0 0 \<lparr>Commitments = [], SignatureProofs = []\<rparr> = Inr mp"
    using sigproof_loop_succeeds[OF pp2 env(3), of 0 "[coms0]" "[mws0]" 0] by (auto simp: p lc lm)
  have ml: "membership_loop E p [coms0] [mws0] 0 (rp_Token p) [] = Inr [mp]"
    by (simp add: t p mp)
  obtain commitment where cc: "computeCommitment E p r = Inr commitment"
    using p(4) by (simp add: computeCommitment_def env(1) p(6) t Let_def)
  let ?chal = "computeChallenge E p commitment [coms0]"
  obtain ps where ps: "SchnorrProver_Prove E ?chal
                [rnd_Value r 0, rnd_TokenBlindingFactor r 0, rnd_CommitmentBlindingFactor r 0]
                [tw_Value (tokenWitness p ! 0), tw_BlindingFactor (tokenWitness p ! 0), [cbf0] ! 0] = Inr ps"
    and lps: "length ps = 3"
    using env(4)[of "[rnd_Value r 0, rnd_TokenBlindingFactor r 0, rnd_CommitmentBlindingFactor r 0]"
            "[tw_Value (tokenWitness p ! 0), tw_BlindingFactor (tokenWitness p ! 0), [cbf0] ! 0]" ?chal]
    by force
  have el: "equality_loop E p r ?chal [cbf0] 0 (rp_Token p) ([], [], [])
              = Inr ([ps ! 0], [ps ! 1], [ps ! 2])"
    using ps lps by (simp add: t p(6))
  show ?thesis
    using env(5) by (simp add: Prove_def cmw ml cc el p(6) Let_def)
qed

theorem Prove_accepts_value_at_bound_witness:
  "rp_Base (example_prover 37 (3 ^ 37)) = 3 \<and>
   rp_Exponent (example_prover 37 (3 ^ 37)) = 37 \<and>
   Int64 example_rp_env (3 ^ 37) \<ge> int (rp_Base (example_prover 37 (3 ^ 37))) ^ 37 \<and>
   (\<exists>raw. Prove example_rp_env (example_prover 37 (3 ^ 37)) example_randomness = Inr raw)"
proof -
  have "\<exists>raw. Prove example_rp_env (example_prover 37 (3 ^ 37)) example_randomness = Inr raw"
  proof (rule Prove_accepts_value_at_bound
           [where tw = "\<lparr>tw_Type = ''ABC'', tw_Value = 3 ^ 37, tw_BlindingFactor = 7\<rparr>"])
    show "\<And>zs gs. length zs = 2 \<Longrightarrow> length gs = 2 \<Longrightarrow>
            \<exists>c. ComputePedersenCommitment example_rp_env zs gs = Inr c"
      by (simp add: example_rp_env_def)
    show "\<And>c rs ws. length rs = length ws \<Longrightarrow>
            \<exists>ps. SchnorrProver_Prove example_rp_env c rs ws = Inr ps \<and> length ps = length ws"
      by (simp add: example_rp_env_def)
  qed (simp_all add: example_prover_def NewProver_def example_rp_env_def)
  then show ?thesis
    by (simp add: example_prover_def NewProver_def example_rp_env_def)
qed

section \<open>Properties of the transfer assembly\<close>

lemma nth_Cons_numeral_eval: "(x # xs) ! numeral n = xs ! pred_numeral n"
  by (simp add: numeral_eq_Suc)

lemmas request_eval = prepareTransfer_def compileTransferOptions_def WithTokenIDs_def
  passed_inputs_def parseInputIDs_def selected_inputs_def reassign_rest_def
  example_request_env_def example_input_def example_wallet_def IsNone_def WithMessagef_def
  nth_Cons_numeral_eval Let_def

lemmas scenario_eval = prepareTransfer_def compileTransferOptions_def WithTokenIDs_def
  passed_inputs_def parseInputIDs_def selected_inputs_def reassign_rest_def
  vault_request_env_def scenario_inputs_def scenario_vault_def mixed_vault_def
  example_wallet_def IsNone_def WithMessagef_def decimal.simps
  nth_Cons_numeral_eval Let_def

text \<open>
  Claim C2.  \<open>prepareTransfer\<close> does not refuse a transfer whose requested outputs exceed
  its inputs.  The inputs of 70 and 30 units of type "ABC", passed by their identifiers,
  parse to the sum 100; for the requested outputs of 65 and 36 units (sum 101)
  \<open>prepareTransfer\<close> returns both inputs and both outputs, and no error.  The two sums are
  compared in one direction only ("Is there a rest?"): an input sum above the output sum
  goes back to the sender, an output sum above the input sum is not looked at.
\<close>

theorem prepareTransfer_accepts_deficit:
  "parseInputIDs (vault_request_env scenario_vault) scenario_inputs
     = (scenario_inputs, Some 100, ''ABC'', None) \<and>
   prepareTransfer (vault_request_env scenario_vault) ''tx1'' False example_wallet ''ABC''
     [65, 36] [''bob'', ''carol''] [WithTokenIDs scenario_inputs]
   = Inr (scenario_inputs,
          [\<lparr>tk_Owner = ''bob'', tk_Type = ''ABC'', tk_Quantity = ''65''\<rparr>,
           \<lparr>tk_Owner = ''carol'', tk_Type = ''ABC'', tk_Quantity = ''36''\<rparr>])"
  by (simp add: scenario_eval)

text \<open>
  On the same inputs, outputs of 65 and 35 units are returned as they are, and outputs of
  65 and 30 units are completed by an output of 5 units for the sender: in both cases
  the outputs returned sum to the inputs.
\<close>

lemma prepareTransfer_balances_surplus:
  "prepareTransfer (vault_request_env scenario_vault) ''tx1'' False example_wallet ''ABC''
     [65, 35] [''bob'', ''carol''] [WithTokenIDs scenario_inputs]
   = Inr (scenario_inputs,
          [\<lparr>tk_Owner = ''bob'', tk_Type = ''ABC'', tk_Quantity = ''65''\<rparr>,
           \<lparr>tk_Owner = ''carol'', tk_Type = ''ABC'', tk_Quantity = ''35''\<rparr>]) \<and>
   prepareTransfer (vault_request_env scenario_vault) ''tx1'' False example_wallet ''ABC''
     [65, 30] [''bob'', ''carol''] [WithTokenIDs scenario_inputs]
   = Inr (scenario_inputs,
          [\<lparr>tk_Owner = ''bob'', tk_Type = ''ABC'', tk_Quantity = ''65''\<rparr>,
           \<lparr>tk_Owner = ''carol'', tk_Type = ''ABC'', tk_Quantity = ''30''\<rparr>,
           \<lparr>tk_Owner = ''alice'', tk_Type = ''ABC'', tk_Quantity = ''5''\<rparr>])"
  by (simp add: scenario_eval)

text \<open>
  Inputs of two types: the branch \<open>typ != tok.Type\<close> of \<open>parseInputIDs\<close> wraps the \<open>nil\<close>
  error of \<open>GetTokens\<close>, so \<open>parseInputIDs\<close> returns no error and a \<open>nil\<close> sum, and
  \<open>prepareTransfer\<close> ends in the run-time panic of \<open>inputSum.Cmp\<close> on that sum.
\<close>

lemma prepareTransfer_differing_types:
  "parseInputIDs (vault_request_env mixed_vault) scenario_inputs = ([], None, [], None) \<and>
   prepareTransfer (vault_request_env mixed_vault) ''tx1'' False example_wallet ''ABC''
     [65, 35] [''bob'', ''carol''] [WithTokenIDs scenario_inputs]
   = Inl (Panic ''invalid memory address or nil pointer dereference'')"
  by (simp add: scenario_eval)

text \<open>
  The loop over the requested values: the \<open>uint64\<close> sum of the values and one output
  token per value, for the owner at the same position.
\<close>

lemma output_loop_eq:
  "i + length vs \<le> length owners \<Longrightarrow>
   output_loop R typ owners i vs acc toks =
     Inr (if vs = [] then acc else (acc + sum_list vs) mod 2 ^ 64,
          toks @ map2 (\<lambda>owner value. \<lparr>tk_Owner = owner, tk_Type = typ,
                                        tk_Quantity = Decimal R (NewQuantityFromUInt64 R value)\<rparr>)
                   (drop i owners) vs)"
proof (induction vs arbitrary: i acc toks)
  case Nil
  then show ?case by simp
next
  case (Cons v vs)
  from Cons.prems have i: "i < length owners" and rest: "Suc i + length vs \<le> length owners"
    by simp_all
  have d: "drop i owners = owners ! i # drop (Suc i) owners"
    using i by (simp add: Cons_nth_drop_Suc)
  show ?case
    using i Cons.IH[OF rest] by (simp add: d mod_add_left_eq add.assoc)
qed

text \<open>
  What \<open>prepareTransfer\<close> returns when inputs are passed, the recipients agree with the
  redeem flag and the inputs parse to the sum \<open>s\<close> of one type and are certified: the
  requested outputs, followed by one output for the sender when \<open>s\<close> is greater than
  the \<open>uint64\<close> sum of the requested values.  In no other way does the result depend on
  the two sums.
\<close>

lemma prepareTransfer_reassigns_rest:
  assumes "compileTransferOptions opts = Inr transferOpts" "to_TokenIDs transferOpts \<noteq> []"
      and "check_owners redeem owners = None"
      and "parseInputIDs R (to_TokenIDs transferOpts) = (ids, Some s, typ, None)"
      and "RequestCertification R ids = None"
      and "length vs \<le> length owners"
  shows "prepareTransfer R txID redeem wallet typ0 vs owners opts =
           (let outputs = map2 (\<lambda>owner value. \<lparr>tk_Owner = owner, tk_Type = typ,
                                   tk_Quantity = Decimal R (NewQuantityFromUInt64 R value)\<rparr>) owners vs;
                qOutputSum = NewQuantityFromUInt64 R (sum_list vs mod 2 ^ 64)
            in if q_Cmp R s qOutputSum = 1 then
                 (case ow_GetRecipientIdentity wallet of
                    Inl err \<Rightarrow>
                      Inl (WithMessage err
                             ''failed getting recipient identity for the rest, wallet [%s]'' [ow_ID wallet])
                  | Inr pseudonym \<Rightarrow>
                      Inr (ids, outputs @ [\<lparr>tk_Owner = pseudonym, tk_Type = typ,
                                             tk_Quantity = Decimal R (q_Sub R s qOutputSum)\<rparr>]))
               else Inr (ids, outputs))"
proof -
  have ol: "output_loop R typ owners 0 vs 0 [] =
          Inr (sum_list vs mod 2 ^ 64,
               map2 (\<lambda>owner value. \<lparr>tk_Owner = owner, tk_Type = typ,
                                   tk_Quantity = Decimal R (NewQuantityFromUInt64 R value)\<rparr>) owners vs)"
    using output_loop_eq[of 0 vs owners R "typ" 0 "[]"] assms(6) by (cases vs) simp_all
  show ?thesis
    using assms(2)
    by (simp add: prepareTransfer_def assms(1,3,4,5) passed_inputs_def ol selected_inputs_def
          reassign_rest_def Let_def)
qed

lemma prepareTransfer_reassigns_rest_example:
  "compileTransferOptions [WithTokenIDs [example_input]]
     = Inr \<lparr>to_Selector = (None :: nat Selector option), to_TokenIDs = [example_input]\<rparr> \<and>
   check_owners False [''bob''] = None \<and>
   parseInputIDs example_request_env [example_input] = ([example_input], Some 5, ''ABC'', None) \<and>
   RequestCertification example_request_env [example_input] = None \<and>
   q_Cmp example_request_env 5 (NewQuantityFromUInt64 example_request_env (sum_list [3] mod 2 ^ 64)) = 1 \<and>
   prepareTransfer example_request_env ''tx1'' False example_wallet ''ABC'' [3] [''bob'']
     [WithTokenIDs [example_input]]
   = Inr ([example_input],
          [\<lparr>tk_Owner = ''bob'', tk_Type = ''ABC'', tk_Quantity = ''3''\<rparr>,
           \<lparr>tk_Owner = ''alice'', tk_Type = ''ABC'', tk_Quantity = ''2''\<rparr>])"
proof -
  have a: "compileTransferOptions [WithTokenIDs [example_input]]
             = Inr \<lparr>to_Selector = (None :: nat Selector option), to_TokenIDs = [example_input]\<rparr>"
    by (simp add: compileTransferOptions_def WithTokenIDs_def)
  have b: "check_owners False [''bob''] = None"
    by (simp add: IsNone_def)
  have c: "parseInputIDs example_request_env [example_input] = ([example_input], Some 5, ''ABC'', None)"
    by (simp add: parseInputIDs_def example_request_env_def example_input_def WithMessagef_def)
  have d: "RequestCertification example_request_env [example_input] = None"
    by (simp add: example_request_env_def)
  have e: "q_Cmp example_request_env 5
             (NewQuantityFromUInt64 example_request_env (sum_list [3] mod 2 ^ 64)) = 1"
    by (simp add: example_request_env_def)
  have f: "prepareTransfer example_request_env ''tx1'' False example_wallet ''ABC'' [3] [''bob'']
             [WithTokenIDs [example_input]]
           = Inr ([example_input],
                  [\<lparr>tk_Owner = ''bob'', tk_Type = ''ABC'', tk_Quantity = ''3''\<rparr>,
                   \<lparr>tk_Owner = ''alice'', tk_Type = ''ABC'', tk_Quantity = ''2''\<rparr>])"
    using prepareTransfer_reassigns_rest
            [of "[WithTokenIDs [example_input]]"
                "\<lparr>to_Selector = None, to_TokenIDs = [example_input]\<rparr>" False "[''bob'']"
                example_request_env "[example_input]" 5 "''ABC''" "[3]" "''tx1''" example_wallet "''ABC''",
             OF a _ b _ d]
      c e
    by (simp add: example_request_env_def example_wallet_def nth_Cons_numeral_eval)
  show ?thesis using a b c d e f by simp
qed

section \<open>Key assignment at the commit stage\<close>

text \<open>
  One successful step of the iteration over the outputs, and what a whole run does to any
  (namespace, key) pair: either nothing, or one of the listed outputs was written there
  and tagged.
\<close>

lemma writeIssueOutputs_step:
  assumes "writeIssueOutputs K ns tx base rw ((i, out) # rest) = (None, rw')"
  obtains key where
    "CreateTokenKey K tx (base + i) = Inr key"
    "\<not> faulty rw (ns, key)"
    "writeIssueOutputs K ns tx base
       (rw\<lparr>state := (state rw)((ns, key) \<mapsto> out),
           state_metadata := (state_metadata rw)((ns, key) \<mapsto> [(Action K, ActionIssue K)])\<rparr>)
       rest = (None, rw')"
  using assms
  by (auto simp: SetState_def SetStateMetadata_def split: sum.splits if_splits prod.splits option.splits)

lemma writeIssueOutputs_cases:
  "writeIssueOutputs K ns tx base rw ios = (None, rw') \<Longrightarrow>
   (state rw' x = state rw x \<and> state_metadata rw' x = state_metadata rw x) \<or>
   (\<exists>i out. (i, out) \<in> set ios \<and> fst x = ns \<and> CreateTokenKey K tx (base + i) = Inr (snd x) \<and>
       state rw' x = Some out \<and> state_metadata rw' x = Some [(Action K, ActionIssue K)])"
proof (induction ios arbitrary: rw)
  case Nil
  then show ?case by simp
next
  case (Cons io rest)
  obtain i out where io: "io = (i, out)" by (cases io)
  from Cons.prems[unfolded io] obtain key where
    key: "CreateTokenKey K tx (base + i) = Inr key"
    and rest: "writeIssueOutputs K ns tx base
       (rw\<lparr>state := (state rw)((ns, key) \<mapsto> out),
           state_metadata := (state_metadata rw)((ns, key) \<mapsto> [(Action K, ActionIssue K)])\<rparr>)
       rest = (None, rw')"
    by (rule writeIssueOutputs_step)
  from Cons.IH[OF rest] show ?case
  proof
    assume same: "state rw' x = state (rw\<lparr>state := (state rw)((ns, key) \<mapsto> out),
           state_metadata := (state_metadata rw)((ns, key) \<mapsto> [(Action K, ActionIssue K)])\<rparr>) x \<and>
      state_metadata rw' x = state_metadata (rw\<lparr>state := (state rw)((ns, key) \<mapsto> out),
           state_metadata := (state_metadata rw)((ns, key) \<mapsto> [(Action K, ActionIssue K)])\<rparr>) x"
    show ?thesis
    proof (cases "x = (ns, key)")
      case True
      with same key have "(i, out) \<in> set (io # rest) \<and> fst x = ns \<and>
          CreateTokenKey K tx (base + i) = Inr (snd x) \<and>
          state rw' x = Some out \<and> state_metadata rw' x = Some [(Action K, ActionIssue K)]"
        by (simp add: io)
      then show ?thesis by blast
    next
      case False
      with same show ?thesis by simp
    qed
  next
    assume "\<exists>i out. (i, out) \<in> set rest \<and> fst x = ns \<and> CreateTokenKey K tx (base + i) = Inr (snd x) \<and>
       state rw' x = Some out \<and> state_metadata rw' x = Some [(Action K, ActionIssue K)]"
    then show ?thesis by auto
  qed
qed

lemma writeIssueOutputs_written:
  "writeIssueOutputs K ns tx base rw ios = (None, rw') \<Longrightarrow> (i, out) \<in> set ios \<Longrightarrow>
   \<exists>key. CreateTokenKey K tx (base + i) = Inr key \<and>
         state_metadata rw' (ns, key) = Some [(Action K, ActionIssue K)] \<and>
         (\<exists>j out'. (j, out') \<in> set ios \<and> CreateTokenKey K tx (base + j) = Inr key \<and>
                    state rw' (ns, key) = Some out')"
proof (induction ios arbitrary: rw)
  case Nil
  then show ?case by simp
next
  case (Cons io rest)
  obtain i0 out0 where io: "io = (i0, out0)" by (cases io)
  from Cons.prems(1)[unfolded io] obtain key0 where
    key0: "CreateTokenKey K tx (base + i0) = Inr key0"
    and rest: "writeIssueOutputs K ns tx base
       (rw\<lparr>state := (state rw)((ns, key0) \<mapsto> out0),
           state_metadata := (state_metadata rw)((ns, key0) \<mapsto> [(Action K, ActionIssue K)])\<rparr>)
       rest = (None, rw')"
    by (rule writeIssueOutputs_step)
  show ?case
  proof (cases "(i, out) \<in> set rest")
    case True
    from Cons.IH[OF rest True] show ?thesis by auto
  next
    case False
    with Cons.prems(2) io have hd: "i = i0" "out = out0" by auto
    from writeIssueOutputs_cases[OF rest, of "(ns, key0)"]
    show ?thesis
    proof
      assume "state rw' (ns, key0) = state (rw\<lparr>state := (state rw)((ns, key0) \<mapsto> out0),
           state_metadata := (state_metadata rw)((ns, key0) \<mapsto> [(Action K, ActionIssue K)])\<rparr>) (ns, key0) \<and>
        state_metadata rw' (ns, key0) = state_metadata (rw\<lparr>state := (state rw)((ns, key0) \<mapsto> out0),
           state_metadata := (state_metadata rw)((ns, key0) \<mapsto> [(Action K, ActionIssue K)])\<rparr>) (ns, key0)"
      then have "CreateTokenKey K tx (base + i) = Inr key0 \<and>
         state_metadata rw' (ns, key0) = Some [(Action K, ActionIssue K)] \<and>
         (i0, out0) \<in> set (io # rest) \<and> CreateTokenKey K tx (base + i0) = Inr key0 \<and>
                    state rw' (ns, key0) = Some out0"
        using key0 hd io by simp
      then show ?thesis by blast
    next
      assume "\<exists>j out'. (j, out') \<in> set rest \<and> fst (ns, key0) = ns \<and>
          CreateTokenKey K tx (base + j) = Inr (snd (ns, key0)) \<and>
          state rw' (ns, key0) = Some out' \<and> state_metadata rw' (ns, key0) = Some [(Action K, ActionIssue K)]"
      then obtain j out' where "(j, out') \<in> set rest" "CreateTokenKey K tx (base + j) = Inr key0"
          "state rw' (ns, key0) = Some out'" "state_metadata rw' (ns, key0) = Some [(Action K, ActionIssue K)]"
        by auto
      then have "CreateTokenKey K tx (base + i) = Inr key0 \<and>
         state_metadata rw' (ns, key0) = Some [(Action K, ActionIssue K)] \<and>
         (j, out') \<in> set (io # rest) \<and> CreateTokenKey K tx (base + j) = Inr key0 \<and>
                    state rw' (ns, key0) = Some out'"
        using key0 hd by simp
      then show ?thesis by blast
    qed
  qed
qed


lemma writeTransferOutputs_redeemed:
  "ta_IsRedeemAt t i \<Longrightarrow>
   writeTransferOutputs K ns tx base t rw (i # is) = writeTransferOutputs K ns tx base t rw is"
  by simp

lemma writeTransferOutputs_step:
  assumes "writeTransferOutputs K ns tx base t rw (i # is) = (None, rw')" "\<not> ta_IsRedeemAt t i"
  obtains key bytes where
    "CreateTokenKey K tx (base + i) = Inr key"
    "ta_SerializeOutputAt t i = Inr bytes"
    "writeTransferOutputs K ns tx base t
       (rw\<lparr>state := (state rw)((ns, key) \<mapsto> bytes),
           state_metadata := (state_metadata rw)((ns, key) \<mapsto> [(Action K, ActionTransfer K)])\<rparr>)
       is = (None, rw')"
  using assms
  by (auto simp: SetState_def SetStateMetadata_def split: sum.splits if_splits prod.splits option.splits)

lemma writeTransferOutputs_cases:
  "writeTransferOutputs K ns tx base t rw is = (None, rw') \<Longrightarrow>
   (state rw' x = state rw x \<and> state_metadata rw' x = state_metadata rw x) \<or>
   (\<exists>i bytes. i \<in> set is \<and> \<not> ta_IsRedeemAt t i \<and> fst x = ns \<and>
       CreateTokenKey K tx (base + i) = Inr (snd x) \<and> ta_SerializeOutputAt t i = Inr bytes \<and>
       state rw' x = Some bytes \<and> state_metadata rw' x = Some [(Action K, ActionTransfer K)])"
proof (induction "is" arbitrary: rw)
  case Nil
  then show ?case by simp
next
  case (Cons i rest)
  show ?case
  proof (cases "ta_IsRedeemAt t i")
    case True
    with Cons.prems have "writeTransferOutputs K ns tx base t rw rest = (None, rw')" by simp
    from Cons.IH[OF this] show ?thesis by auto
  next
    case False
    from Cons.prems False obtain key bytes where
      key: "CreateTokenKey K tx (base + i) = Inr key"
      and bytes: "ta_SerializeOutputAt t i = Inr bytes"
      and rest: "writeTransferOutputs K ns tx base t
         (rw\<lparr>state := (state rw)((ns, key) \<mapsto> bytes),
             state_metadata := (state_metadata rw)((ns, key) \<mapsto> [(Action K, ActionTransfer K)])\<rparr>)
         rest = (None, rw')"
      by (rule writeTransferOutputs_step)
    from Cons.IH[OF rest] show ?thesis
    proof
      assume same: "state rw' x = state (rw\<lparr>state := (state rw)((ns, key) \<mapsto> bytes),
             state_metadata := (state_metadata rw)((ns, key) \<mapsto> [(Action K, ActionTransfer K)])\<rparr>) x \<and>
        state_metadata rw' x = state_metadata (rw\<lparr>state := (state rw)((ns, key) \<mapsto> bytes),
             state_metadata := (state_metadata rw)((ns, key) \<mapsto> [(Action K, ActionTransfer K)])\<rparr>) x"
      show ?thesis
      proof (cases "x = (ns, key)")
        case True
        with same key bytes False have "i \<in> set (i # rest) \<and> \<not> ta_IsRedeemAt t i \<and> fst x = ns \<and>
            CreateTokenKey K tx (base + i) = Inr (snd x) \<and> ta_SerializeOutputAt t i = Inr bytes \<and>
            state rw' x = Some bytes \<and> state_metadata rw' x = Some [(Action K, ActionTransfer K)]"
          by simp
        then show ?thesis by blast
      next
        case False
        with same show ?thesis by simp
      qed
    next
      assume "\<exists>i bytes. i \<in> set rest \<and> \<not> ta_IsRedeemAt t i \<and> fst x = ns \<and>
         CreateTokenKey K tx (base + i) = Inr (snd x) \<and> ta_SerializeOutputAt t i = Inr bytes \<and>
         state rw' x = Some bytes \<and> state_metadata rw' x = Some [(Action K, ActionTransfer K)]"
      then show ?thesis by auto
    qed
  qed
qed

lemma writeTransferOutputs_written:
  "writeTransferOutputs K ns tx base t rw is = (None, rw') \<Longrightarrow> i \<in> set is \<Longrightarrow> \<not> ta_IsRedeemAt t i \<Longrightarrow>
   \<exists>key bytes. CreateTokenKey K tx (base + i) = Inr key \<and> ta_SerializeOutputAt t i = Inr bytes \<and>
         state_metadata rw' (ns, key) = Some [(Action K, ActionTransfer K)] \<and>
         (\<exists>j bytes'. j \<in> set is \<and> \<not> ta_IsRedeemAt t j \<and> CreateTokenKey K tx (base + j) = Inr key \<and>
                    ta_SerializeOutputAt t j = Inr bytes' \<and> state rw' (ns, key) = Some bytes')"
proof (induction "is" arbitrary: rw)
  case Nil
  then show ?case by simp
next
  case (Cons i0 rest)
  show ?case
  proof (cases "i \<in> set rest")
    case True
    obtain rw1 where "writeTransferOutputs K ns tx base t rw1 rest = (None, rw')"
    proof (cases "ta_IsRedeemAt t i0")
      case True
      with Cons.prems(1) show ?thesis using that by simp
    next
      case False
      from Cons.prems(1) False obtain key bytes where
        "writeTransferOutputs K ns tx base t
           (rw\<lparr>state := (state rw)((ns, key) \<mapsto> bytes),
               state_metadata := (state_metadata rw)((ns, key) \<mapsto> [(Action K, ActionTransfer K)])\<rparr>)
           rest = (None, rw')"
        by (rule writeTransferOutputs_step)
      then show ?thesis using that by blast
    qed
    from Cons.IH[OF this True Cons.prems(3)] show ?thesis by auto
  next
    case False
    with Cons.prems(2) have hd: "i = i0" by simp
    have nr: "\<not> ta_IsRedeemAt t i0" using Cons.prems(3) hd by simp
    from Cons.prems(1) nr obtain key bytes where
      key: "CreateTokenKey K tx (base + i0) = Inr key"
      and bytes: "ta_SerializeOutputAt t i0 = Inr bytes"
      and rest: "writeTransferOutputs K ns tx base t
         (rw\<lparr>state := (state rw)((ns, key) \<mapsto> bytes),
             state_metadata := (state_metadata rw)((ns, key) \<mapsto> [(Action K, ActionTransfer K)])\<rparr>)
         rest = (None, rw')"
      by (rule writeTransferOutputs_step)
    from writeTransferOutputs_cases[OF rest, of "(ns, key)"]
    show ?thesis
    proof
      assume "state rw' (ns, key) = state (rw\<lparr>state := (state rw)((ns, key) \<mapsto> bytes),
             state_metadata := (state_metadata rw)((ns, key) \<mapsto> [(Action K, ActionTransfer K)])\<rparr>) (ns, key) \<and>
        state_metadata rw' (ns, key) = state_metadata (rw\<lparr>state := (state rw)((ns, key) \<mapsto> bytes),
             state_metadata := (state_metadata rw)((ns, key) \<mapsto> [(Action K, ActionTransfer K)])\<rparr>) (ns, key)"
      then have "CreateTokenKey K tx (base + i) = Inr key \<and> ta_SerializeOutputAt t i = Inr bytes \<and>
         state_metadata rw' (ns, key) = Some [(Action K, ActionTransfer K)] \<and>
         i0 \<in> set (i0 # rest) \<and> \<not> ta_IsRedeemAt t i0 \<and> CreateTokenKey K tx (base + i0) = Inr key \<and>
                    ta_SerializeOutputAt t i0 = Inr bytes \<and> state rw' (ns, key) = Some bytes"
        using key bytes hd Cons.prems(3) by simp
      then show ?thesis by blast
    next
      assume "\<exists>j bytes'. j \<in> set rest \<and> \<not> ta_IsRedeemAt t j \<and> fst (ns, key) = ns \<and>
         CreateTokenKey K tx (base + j) = Inr (snd (ns, key)) \<and> ta_SerializeOutputAt t j = Inr bytes' \<and>
         state rw' (ns, key) = Some bytes' \<and> state_metadata rw' (ns, key) = Some [(Action K, ActionTransfer K)]"
      then obtain j bytes' where "j \<in> set rest" "\<not> ta_IsRedeemAt t j"
          "CreateTokenKey K tx (base + j) = Inr key" "ta_SerializeOutputAt t j = Inr bytes'"
          "state rw' (ns, key) = Some bytes'" "state_metadata rw' (ns, key) = Some [(Action K, ActionTransfer K)]"
        by auto
      then have "CreateTokenKey K tx (base + i) = Inr key \<and> ta_SerializeOutputAt t i = Inr bytes \<and>
         state_metadata rw' (ns, key) = Some [(Action K, ActionTransfer K)] \<and>
         j \<in> set (i0 # rest) \<and> \<not> ta_IsRedeemAt t j \<and> CreateTokenKey K tx (base + j) = Inr key \<and>
                    ta_SerializeOutputAt t j = Inr bytes' \<and> state rw' (ns, key) = Some bytes'"
        using key bytes hd by simp
      then show ?thesis by blast
    qed
  qed
qed


lemma set_enumerate_int:
  "(i, out) \<in> set (enumerate_int outs) \<longleftrightarrow> (\<exists>n<length outs. i = int n \<and> out = outs ! n)"
proof
  assume "(i, out) \<in> set (enumerate_int outs)"
  then obtain n where "n < length outs" "map int [0..<length outs] ! n = i" "outs ! n = out"
    by (auto simp: enumerate_int_def set_zip)
  then show "\<exists>n<length outs. i = int n \<and> out = outs ! n" by auto
next
  assume "\<exists>n<length outs. i = int n \<and> out = outs ! n"
  then obtain n where n: "n < length outs" "i = int n" "out = outs ! n" by blast
  then have "i = map int [0..<length outs] ! n \<and> out = outs ! n \<and>
             n < min (length (map int [0..<length outs])) (length outs)"
    by simp
  then show "(i, out) \<in> set (enumerate_int outs)"
    unfolding enumerate_int_def set_zip by blast
qed

lemma set_indices: "i \<in> set (indices n) \<longleftrightarrow> 0 \<le> i \<and> i < n"
  by (auto simp: indices_def image_iff intro: bexI[of _ "nat i"])

lemma commitIssueAction_success:
  assumes "commitIssueAction K w a = (None, w')"
  obtains outs where
    "ia_GetSerializedOutputs a = Inr outs"
    "writeIssueOutputs K (namespace w) (TxID w) (counter w) (RWSet w) (enumerate_int outs)
       = (None, RWSet w')"
    "w' = w\<lparr>RWSet := RWSet w', counter := counter w + int (length outs)\<rparr>"
  using assms
  by (auto simp: commitIssueAction_def Let_def split: prod.splits option.splits sum.splits)

lemma commitIssueAction_keys:
  assumes "commitIssueAction K w a = (None, w')"
  shows "\<exists>outs. ia_GetSerializedOutputs a = Inr outs \<and>
           counter w' = counter w + int (length outs) \<and>
           (\<forall>n<length outs. \<exists>key.
               CreateTokenKey K (TxID w) (counter w + int n) = Inr key \<and>
               state_metadata (RWSet w') (namespace w, key) = Some [(Action K, ActionIssue K)] \<and>
               ((\<forall>m<length outs. m \<noteq> n \<longrightarrow> CreateTokenKey K (TxID w) (counter w + int m) \<noteq> Inr key)
                  \<longrightarrow> state (RWSet w') (namespace w, key) = Some (outs ! n))) \<and>
           (\<forall>ns k. ns \<noteq> namespace w \<or>
                    (\<forall>n<length outs. CreateTokenKey K (TxID w) (counter w + int n) \<noteq> Inr k) \<longrightarrow>
               state (RWSet w') (ns, k) = state (RWSet w) (ns, k) \<and>
               state_metadata (RWSet w') (ns, k) = state_metadata (RWSet w) (ns, k))"
proof -
  from assms obtain outs where
    outs: "ia_GetSerializedOutputs a = Inr outs"
    and wr: "writeIssueOutputs K (namespace w) (TxID w) (counter w) (RWSet w) (enumerate_int outs)
               = (None, RWSet w')"
    and w': "w' = w\<lparr>RWSet := RWSet w', counter := counter w + int (length outs)\<rparr>"
    by (rule commitIssueAction_success)
  have c: "counter w' = counter w + int (length outs)"
    by (subst w') simp
  have written: "\<exists>key. CreateTokenKey K (TxID w) (counter w + int n) = Inr key \<and>
               state_metadata (RWSet w') (namespace w, key) = Some [(Action K, ActionIssue K)] \<and>
               ((\<forall>m<length outs. m \<noteq> n \<longrightarrow> CreateTokenKey K (TxID w) (counter w + int m) \<noteq> Inr key)
                  \<longrightarrow> state (RWSet w') (namespace w, key) = Some (outs ! n))"
    if n: "n < length outs" for n
  proof -
    have "(int n, outs ! n) \<in> set (enumerate_int outs)"
      using n by (auto simp: set_enumerate_int)
    from writeIssueOutputs_written[OF wr this] obtain key j out' where
      key: "CreateTokenKey K (TxID w) (counter w + int n) = Inr key"
      and meta: "state_metadata (RWSet w') (namespace w, key) = Some [(Action K, ActionIssue K)]"
      and j: "(j, out') \<in> set (enumerate_int outs)"
             "CreateTokenKey K (TxID w) (counter w + j) = Inr key"
             "state (RWSet w') (namespace w, key) = Some out'"
      by blast
    from j(1) obtain m where m: "m < length outs" "j = int m" "out' = outs ! m"
      by (auto simp: set_enumerate_int)
    have "state (RWSet w') (namespace w, key) = Some (outs ! n)"
      if "\<forall>m<length outs. m \<noteq> n \<longrightarrow> CreateTokenKey K (TxID w) (counter w + int m) \<noteq> Inr key"
    proof -
      from that m j(2) have "m = n" by auto
      with j(3) m show ?thesis by simp
    qed
    with key meta show ?thesis by blast
  qed
  have frame: "state (RWSet w') (ns, k) = state (RWSet w) (ns, k) \<and>
               state_metadata (RWSet w') (ns, k) = state_metadata (RWSet w) (ns, k)"
    if "ns \<noteq> namespace w \<or>
        (\<forall>n<length outs. CreateTokenKey K (TxID w) (counter w + int n) \<noteq> Inr k)" for ns k
    using writeIssueOutputs_cases[OF wr, of "(ns, k)"] that
    by (auto simp: set_enumerate_int)
  from outs c written frame show ?thesis by blast
qed

lemma commitTransferAction_keys:
  assumes "commitTransferAction K w t = (None, w')"
  shows "\<exists>ids. ta_GetInputs t = Inr ids \<and>
           counter w' = counter w + ta_NumOutputs t \<and>
           (\<forall>k\<in>set ids.
               state (RWSet w') (namespace w, k) = (if ta_IsGraphHiding t then Some ''true'' else None) \<and>
               (\<not> ta_IsGraphHiding t \<longrightarrow> state_metadata (RWSet w') (namespace w, k) = None)) \<and>
           (\<forall>i. 0 \<le> i \<and> i < ta_NumOutputs t \<and> \<not> ta_IsRedeemAt t i \<longrightarrow>
               (\<exists>key bytes.
                   CreateTokenKey K (TxID w) (counter w + i) = Inr key \<and>
                   ta_SerializeOutputAt t i = Inr bytes \<and>
                   (key \<notin> set ids \<longrightarrow>
                      state_metadata (RWSet w') (namespace w, key) = Some [(Action K, ActionTransfer K)] \<and>
                      ((\<forall>j. 0 \<le> j \<and> j < ta_NumOutputs t \<and> \<not> ta_IsRedeemAt t j \<and> j \<noteq> i \<longrightarrow>
                            CreateTokenKey K (TxID w) (counter w + j) \<noteq> Inr key) \<longrightarrow>
                       state (RWSet w') (namespace w, key) = Some bytes)))) \<and>
           (\<forall>ns k. ns \<noteq> namespace w \<or>
                    (k \<notin> set ids \<and>
                     (\<forall>i. 0 \<le> i \<and> i < ta_NumOutputs t \<and> \<not> ta_IsRedeemAt t i \<longrightarrow>
                          CreateTokenKey K (TxID w) (counter w + i) \<noteq> Inr k)) \<longrightarrow>
               state (RWSet w') (ns, k) = state (RWSet w) (ns, k) \<and>
               state_metadata (RWSet w') (ns, k) = state_metadata (RWSet w) (ns, k))"
proof -
  from assms obtain rw ids where
    wr: "writeTransferOutputs K (namespace w) (TxID w) (counter w) t (RWSet w)
           (indices (ta_NumOutputs t)) = (None, rw)"
    and ids: "ta_GetInputs t = Inr ids"
    and sp: "spendTokens (namespace w) rw ids (ta_IsGraphHiding t) = (None, RWSet w')"
    and w': "w' = w\<lparr>RWSet := RWSet w', counter := counter w + ta_NumOutputs t\<rparr>"
    by (rule commitTransferAction_success)
  note spent = spendTokens_state[OF sp]
  have c: "counter w' = counter w + ta_NumOutputs t"
    by (subst w') simp
  have inputs: "state (RWSet w') (namespace w, k) = (if ta_IsGraphHiding t then Some ''true'' else None) \<and>
               (\<not> ta_IsGraphHiding t \<longrightarrow> state_metadata (RWSet w') (namespace w, k) = None)"
    if "k \<in> set ids" for k
    using spent[of "(namespace w, k)"] that by simp
  have outputs: "\<exists>key bytes.
                   CreateTokenKey K (TxID w) (counter w + i) = Inr key \<and>
                   ta_SerializeOutputAt t i = Inr bytes \<and>
                   (key \<notin> set ids \<longrightarrow>
                      state_metadata (RWSet w') (namespace w, key) = Some [(Action K, ActionTransfer K)] \<and>
                      ((\<forall>j. 0 \<le> j \<and> j < ta_NumOutputs t \<and> \<not> ta_IsRedeemAt t j \<and> j \<noteq> i \<longrightarrow>
                            CreateTokenKey K (TxID w) (counter w + j) \<noteq> Inr key) \<longrightarrow>
                       state (RWSet w') (namespace w, key) = Some bytes))"
    if i: "0 \<le> i \<and> i < ta_NumOutputs t \<and> \<not> ta_IsRedeemAt t i" for i
  proof -
    have "i \<in> set (indices (ta_NumOutputs t))" using i by (simp add: set_indices)
    from writeTransferOutputs_written[OF wr this] i obtain key bytes j bytes' where
      key: "CreateTokenKey K (TxID w) (counter w + i) = Inr key"
      and bytes: "ta_SerializeOutputAt t i = Inr bytes"
      and meta: "state_metadata rw (namespace w, key) = Some [(Action K, ActionTransfer K)]"
      and j: "j \<in> set (indices (ta_NumOutputs t))" "\<not> ta_IsRedeemAt t j"
             "CreateTokenKey K (TxID w) (counter w + j) = Inr key"
             "ta_SerializeOutputAt t j = Inr bytes'" "state rw (namespace w, key) = Some bytes'"
      by blast
    have "state_metadata (RWSet w') (namespace w, key) = Some [(Action K, ActionTransfer K)] \<and>
          ((\<forall>j. 0 \<le> j \<and> j < ta_NumOutputs t \<and> \<not> ta_IsRedeemAt t j \<and> j \<noteq> i \<longrightarrow>
                CreateTokenKey K (TxID w) (counter w + j) \<noteq> Inr key) \<longrightarrow>
           state (RWSet w') (namespace w, key) = Some bytes)"
      if notin: "key \<notin> set ids"
    proof -
      have m: "state_metadata (RWSet w') (namespace w, key) = Some [(Action K, ActionTransfer K)]"
        using spent[of "(namespace w, key)"] notin meta by simp
      have s: "state (RWSet w') (namespace w, key) = Some bytes"
        if "\<forall>j. 0 \<le> j \<and> j < ta_NumOutputs t \<and> \<not> ta_IsRedeemAt t j \<and> j \<noteq> i \<longrightarrow>
                CreateTokenKey K (TxID w) (counter w + j) \<noteq> Inr key"
      proof -
        from that j(1,2,3) have "j = i" by (auto simp: set_indices)
        with j(4,5) bytes have "state rw (namespace w, key) = Some bytes" by simp
        then show ?thesis using spent[of "(namespace w, key)"] notin by simp
      qed
      from m s show ?thesis by blast
    qed
    with key bytes show ?thesis by blast
  qed
  have frame: "state (RWSet w') (ns, k) = state (RWSet w) (ns, k) \<and>
               state_metadata (RWSet w') (ns, k) = state_metadata (RWSet w) (ns, k)"
    if "ns \<noteq> namespace w \<or>
          (k \<notin> set ids \<and>
           (\<forall>i. 0 \<le> i \<and> i < ta_NumOutputs t \<and> \<not> ta_IsRedeemAt t i \<longrightarrow>
                CreateTokenKey K (TxID w) (counter w + i) \<noteq> Inr k))" for ns k
    using writeTransferOutputs_cases[OF wr, of "(ns, k)"] spent[of "(ns, k)"] that
    by (auto simp: set_indices)
  from ids c inputs outputs frame show ?thesis by blast
qed

text \<open>
  Claim C8.  A committed issue writes its \<open>n\<close>-th serialized output under the key of
  (TxID, counter + n) and tags it as issued; the counter advances by the number of
  outputs.  A committed transfer writes its \<open>i\<close>-th output, unless it is redeemed, under
  the key of (TxID, counter + i) and tags it as transferred, deletes the state and the
  metadata of every input (without graph hiding) or writes the marker "true" under it
  (with graph hiding), and advances the counter by the full number of outputs, redeemed
  ones included.  Nothing else is written: a pair that is neither an input nor the key
  of a written output keeps its state and metadata, so a redeemed output gets no key.
  (The value under an output key is the output itself when no other output of the
  action has the same key; inputs are spent after the outputs are written.)
\<close>

theorem commit_assigns_keys:
  "(commitIssueAction K w a = (None, w') \<longrightarrow>
      (\<exists>outs. ia_GetSerializedOutputs a = Inr outs \<and>
           counter w' = counter w + int (length outs) \<and>
           (\<forall>n<length outs. \<exists>key.
               CreateTokenKey K (TxID w) (counter w + int n) = Inr key \<and>
               state_metadata (RWSet w') (namespace w, key) = Some [(Action K, ActionIssue K)] \<and>
               ((\<forall>m<length outs. m \<noteq> n \<longrightarrow> CreateTokenKey K (TxID w) (counter w + int m) \<noteq> Inr key)
                  \<longrightarrow> state (RWSet w') (namespace w, key) = Some (outs ! n))) \<and>
           (\<forall>ns k. ns \<noteq> namespace w \<or>
                    (\<forall>n<length outs. CreateTokenKey K (TxID w) (counter w + int n) \<noteq> Inr k) \<longrightarrow>
               state (RWSet w') (ns, k) = state (RWSet w) (ns, k) \<and>
               state_metadata (RWSet w') (ns, k) = state_metadata (RWSet w) (ns, k)))) \<and>
   (commitTransferAction K w t = (None, w'') \<longrightarrow>
      (\<exists>ids. ta_GetInputs t = Inr ids \<and>
           counter w'' = counter w + ta_NumOutputs t \<and>
           (\<forall>k\<in>set ids.
               state (RWSet w'') (namespace w, k) = (if ta_IsGraphHiding t then Some ''true'' else None) \<and>
               (\<not> ta_IsGraphHiding t \<longrightarrow> state_metadata (RWSet w'') (namespace w, k) = None)) \<and>
           (\<forall>i. 0 \<le> i \<and> i < ta_NumOutputs t \<and> \<not> ta_IsRedeemAt t i \<longrightarrow>
               (\<exists>key bytes.
                   CreateTokenKey K (TxID w) (counter w + i) = Inr key \<and>
                   ta_SerializeOutputAt t i = Inr bytes \<and>
                   (key \<notin> set ids \<longrightarrow>
                      state_metadata (RWSet w'') (namespace w, key) = Some [(Action K, ActionTransfer K)] \<and>
                      ((\<forall>j. 0 \<le> j \<and> j < ta_NumOutputs t \<and> \<not> ta_IsRedeemAt t j \<and> j \<noteq> i \<longrightarrow>
                            CreateTokenKey K (TxID w) (counter w + j) \<noteq> Inr key) \<longrightarrow>
                       state (RWSet w'') (namespace w, key) = Some bytes)))) \<and>
           (\<forall>ns k. ns \<noteq> namespace w \<or>
                    (k \<notin> set ids \<and>
                     (\<forall>i. 0 \<le> i \<and> i < ta_NumOutputs t \<and> \<not> ta_IsRedeemAt t i \<longrightarrow>
                          CreateTokenKey K (TxID w) (counter w + i) \<noteq> Inr k)) \<longrightarrow>
               state (RWSet w'') (ns, k) = state (RWSet w) (ns, k) \<and>
               state_metadata (RWSet w'') (ns, k) = state_metadata (RWSet w) (ns, k))))"
  using commitIssueAction_keys[of K w a w'] commitTransferAction_keys[of K w t w'']
  by blast

text \<open>
  On the example ledger the issue of two outputs writes the keys of indices 0 and 1 and
  moves the counter to 2; the transfer with a redeemed second output writes the key of
  index 0 only, deletes its input, and moves the counter to 2 as well.
\<close>

theorem commit_assigns_keys_witness:
  "fst (commitIssueAction example_keys example_translator example_issue) = None \<and>
   counter (snd (commitIssueAction example_keys example_translator example_issue)) = 2 \<and>
   state (RWSet (snd (commitIssueAction example_keys example_translator example_issue)))
     (''ns'', ''tx1.out1'') = Some ''second'' \<and>
   state_metadata (RWSet (snd (commitIssueAction example_keys example_translator example_issue)))
     (''ns'', ''tx1.out1'') = Some [(''action'', ''issue'')] \<and>
   fst (commitTransferAction example_keys example_translator example_redeem) = None \<and>
   counter (snd (commitTransferAction example_keys example_translator example_redeem)) = 2 \<and>
   state (RWSet (snd (commitTransferAction example_keys example_translator example_redeem)))
     (''ns'', ''tx0.out0'') = None \<and>
   state (RWSet (snd (commitTransferAction example_keys example_translator example_redeem)))
     (''ns'', ''tx1.out1'') = None"
proof -
  let ?wi = "snd (commitIssueAction example_keys example_translator example_issue)"
  let ?wt = "snd (commitTransferAction example_keys example_translator example_redeem)"
  have fi: "fst (commitIssueAction example_keys example_translator example_issue) = None"
    by (simp add: example_defs example_issue_def commitIssueAction_def enumerate_int_def
          SetState_def SetStateMetadata_def upt_rec)
  have ft: "fst (commitTransferAction example_keys example_translator example_redeem) = None"
    by (simp add: example_defs example_redeem_def commitTransferAction_def indices_def
          SetState_def SetStateMetadata_def DeleteState_def upt_rec)
  have ci: "commitIssueAction example_keys example_translator example_issue = (None, ?wi)"
    using fi by (metis prod.collapse)
  have ct: "commitTransferAction example_keys example_translator example_redeem = (None, ?wt)"
    using ft by (metis prod.collapse)
  note inst = commit_assigns_keys[of example_keys example_translator example_issue ?wi
                example_redeem ?wt]
  from inst ci obtain outs where
    outs: "ia_GetSerializedOutputs example_issue = Inr outs"
    and cnt: "counter ?wi = counter example_translator + int (length outs)"
    and wr: "\<forall>n<length outs. \<exists>key.
               CreateTokenKey example_keys (TxID example_translator)
                 (counter example_translator + int n) = Inr key \<and>
               state_metadata (RWSet ?wi) (namespace example_translator, key)
                 = Some [(Action example_keys, ActionIssue example_keys)] \<and>
               ((\<forall>m<length outs. m \<noteq> n \<longrightarrow>
                    CreateTokenKey example_keys (TxID example_translator)
                      (counter example_translator + int m) \<noteq> Inr key)
                  \<longrightarrow> state (RWSet ?wi) (namespace example_translator, key) = Some (outs ! n))"
    by blast
  from outs have o: "outs = [''first'', ''second'']" by (simp add: example_issue_def)
  have c1: "counter ?wi = 2" using cnt by (simp add: o example_defs)
  from wr[rule_format, of 1] have
    s1: "state (RWSet ?wi) (''ns'', ''tx1.out1'') = Some ''second''"
    and m1: "state_metadata (RWSet ?wi) (''ns'', ''tx1.out1'') = Some [(''action'', ''issue'')]"
    by (auto simp: o example_defs less_Suc_eq)
  from inst ct obtain ids where
    ids: "ta_GetInputs example_redeem = Inr ids"
    and cnt2: "counter ?wt = counter example_translator + ta_NumOutputs example_redeem"
    and ins: "\<forall>k\<in>set ids.
               state (RWSet ?wt) (namespace example_translator, k)
                 = (if ta_IsGraphHiding example_redeem then Some ''true'' else None) \<and>
               (\<not> ta_IsGraphHiding example_redeem \<longrightarrow>
                  state_metadata (RWSet ?wt) (namespace example_translator, k) = None)"
    and frame: "\<forall>ns k. ns \<noteq> namespace example_translator \<or>
                    (k \<notin> set ids \<and>
                     (\<forall>i. 0 \<le> i \<and> i < ta_NumOutputs example_redeem \<and> \<not> ta_IsRedeemAt example_redeem i \<longrightarrow>
                          CreateTokenKey example_keys (TxID example_translator)
                            (counter example_translator + i) \<noteq> Inr k)) \<longrightarrow>
               state (RWSet ?wt) (ns, k) = state (RWSet example_translator) (ns, k) \<and>
               state_metadata (RWSet ?wt) (ns, k) = state_metadata (RWSet example_translator) (ns, k)"
    by blast
  from ids have i: "ids = [''tx0.out0'']" by (simp add: example_redeem_def)
  have c2: "counter ?wt = 2" using cnt2 by (simp add: example_defs example_redeem_def)
  have s2: "state (RWSet ?wt) (''ns'', ''tx0.out0'') = None"
    using ins by (simp add: i example_defs example_redeem_def)
  have "state (RWSet ?wt) (''ns'', ''tx1.out1'') = state (RWSet example_translator) (''ns'', ''tx1.out1'')"
    using frame[rule_format, of "''ns''" "''tx1.out1''"]
    by (auto simp: i example_defs example_redeem_def)
  then have s3: "state (RWSet ?wt) (''ns'', ''tx1.out1'') = None"
    by (simp add: example_defs)
  show ?thesis using fi ft c1 s1 m1 c2 s2 s3 by simp
qed

section \<open>Spent inputs stay spent\<close>

text \<open>
  The state of a spent input key is empty without graph hiding and non-empty with graph
  hiding.  A successful \<open>Write\<close> keeps it so, provided that the key is neither the setup
  key nor a token key of the translator's transaction, and that a transfer action
  works in the same mode.
\<close>

lemma commitIssueAction_fixed:
  "namespace (snd (commitIssueAction K w a)) = namespace w \<and>
   TxID (snd (commitIssueAction K w a)) = TxID w"
  by (auto simp: commitIssueAction_def Let_def split: prod.splits option.splits sum.splits)

lemma Write_keeps_spent:
  assumes wr: "Write K w action = (None, w1)"
      and spent: "if g then len (state (RWSet w) (namespace w, key)) \<noteq> 0
                  else len (state (RWSet w) (namespace w, key)) = 0"
      and mode: "\<And>t'. action = TransferAction t' \<Longrightarrow> ta_IsGraphHiding t' = g"
      and fresh: "\<And>i. CreateTokenKey K (TxID w) i \<noteq> Inr key" "CreateSetupKey K \<noteq> Inr key"
  shows "(if g then len (state (RWSet w1) (namespace w1, key)) \<noteq> 0
          else len (state (RWSet w1) (namespace w1, key)) = 0)
         \<and> TxID w1 = TxID w \<and> namespace w1 = namespace w"
proof (cases action)
  case (IssueAction a)
  with wr have c: "commitIssueAction K w a = (None, w1)"
    by (auto simp: Write_def checkProcess_def commitProcess_def commitAction_def split: option.splits)
  have same: "TxID w1 = TxID w \<and> namespace w1 = namespace w"
    using commitIssueAction_fixed[of K w a] c by simp
  from commitIssueAction_keys[OF c] fresh(1)
  have "state (RWSet w1) (namespace w, key) = state (RWSet w) (namespace w, key)"
    by blast
  with spent same show ?thesis by simp
next
  case (TransferAction t')
  with wr have c: "commitTransferAction K w t' = (None, w1)"
    by (auto simp: Write_def checkProcess_def commitProcess_def commitAction_def split: option.splits)
  have same: "TxID w1 = TxID w \<and> namespace w1 = namespace w"
    using commitTransferAction_fixed[of K w t'] c by simp
  have g: "ta_IsGraphHiding t' = g" using mode TransferAction by simp
  from commitTransferAction_keys[OF c] obtain ids where
    ins: "\<forall>k\<in>set ids.
               state (RWSet w1) (namespace w, k) = (if ta_IsGraphHiding t' then Some ''true'' else None)"
    and frame: "\<forall>ns k. ns \<noteq> namespace w \<or>
                    (k \<notin> set ids \<and>
                     (\<forall>i. 0 \<le> i \<and> i < ta_NumOutputs t' \<and> \<not> ta_IsRedeemAt t' i \<longrightarrow>
                          CreateTokenKey K (TxID w) (counter w + i) \<noteq> Inr k)) \<longrightarrow>
               state (RWSet w1) (ns, k) = state (RWSet w) (ns, k) \<and>
               state_metadata (RWSet w1) (ns, k) = state_metadata (RWSet w) (ns, k)"
    by blast
  show ?thesis
  proof (cases "key \<in> set ids")
    case True
    with ins g same show ?thesis by (simp add: len_def)
  next
    case False
    with frame fresh(1) have "state (RWSet w1) (namespace w, key) = state (RWSet w) (namespace w, key)"
      by blast
    with spent same show ?thesis by simp
  qed
next
  case (SetupAction a)
  with wr fresh(2) spent show ?thesis
    by (auto simp: Write_def checkProcess_def commitProcess_def commitAction_def
          commitSetupAction_def SetState_def split: option.splits sum.splits if_splits)
next
  case OtherAction
  with wr show ?thesis
    by (simp add: Write_def checkProcess_def checkAction_def)
qed

lemma write_actions_keep_spent:
  assumes "write_actions K w actions = (None, w1)"
      and "if g then len (state (RWSet w) (namespace w, key)) \<noteq> 0
           else len (state (RWSet w) (namespace w, key)) = 0"
      and "\<And>t'. TransferAction t' \<in> set actions \<Longrightarrow> ta_IsGraphHiding t' = g"
      and "\<And>i. CreateTokenKey K (TxID w) i \<noteq> Inr key" "CreateSetupKey K \<noteq> Inr key"
  shows "(if g then len (state (RWSet w1) (namespace w1, key)) \<noteq> 0
          else len (state (RWSet w1) (namespace w1, key)) = 0) \<and> namespace w1 = namespace w"
  using assms
proof (induction actions arbitrary: w)
  case Nil
  then show ?case by (auto split: if_splits)
next
  case (Cons action actions)
  from Cons.prems(1) obtain w0 where
    first: "Write K w action = (None, w0)" and rest: "write_actions K w0 actions = (None, w1)"
    by (auto split: prod.splits option.splits)
  from Write_keeps_spent[OF first Cons.prems(2) _ Cons.prems(4,5)] Cons.prems(3)
  have s0: "if g then len (state (RWSet w0) (namespace w0, key)) \<noteq> 0
            else len (state (RWSet w0) (namespace w0, key)) = 0"
    and same: "TxID w0 = TxID w" "namespace w0 = namespace w"
    by (auto split: if_splits)
  have "(if g then len (state (RWSet w1) (namespace w1, key)) \<noteq> 0
          else len (state (RWSet w1) (namespace w1, key)) = 0) \<and> namespace w1 = namespace w0"
    by (rule Cons.IH[OF rest s0]) (use Cons.prems(3,4,5) same in simp_all)
  with same show ?case by (auto split: if_splits)
qed

text \<open>
  Consequently a committed input is refused not only by the next check but after any
  sequence of further successful writes of the same translator: the rejection of a
  spent input is stable as long as the later transfers work in the same mode and no
  later output or setup write lands on the spent key.
\<close>

lemma double_spend_rejected_after_writes:
  assumes commit: "commitTransferAction K w t = (None, w')"
      and ins: "ta_GetInputs t = Inr ids" "key \<in> set ids"
      and writes: "write_actions K w' actions = (None, w'')"
      and mode: "\<And>t'. TransferAction t' \<in> set actions \<Longrightarrow> ta_IsGraphHiding t' = ta_IsGraphHiding t"
      and fresh: "\<And>i. CreateTokenKey K (TxID w) i \<noteq> Inr key" "CreateSetupKey K \<noteq> Inr key"
      and later: "ta_GetInputs t2 = Inr ids2" "key \<in> set ids2"
                 "ta_IsGraphHiding t2 = ta_IsGraphHiding t"
      and ledger: "RWSet w2 = RWSet w''" "namespace w2 = namespace w"
  shows "checkTransfer K2 w2 t2 \<noteq> None"
proof -
  from commit obtain rw ids' where
      g: "ta_GetInputs t = Inr ids'"
      and sp: "spendTokens (namespace w) rw ids' (ta_IsGraphHiding t) = (None, RWSet w')"
    by (rule commitTransferAction_success)
  from g ins have [simp]: "ids' = ids" by simp
  have same: "TxID w' = TxID w" "namespace w' = namespace w"
    using commitTransferAction_fixed[of K w t] commit by simp_all
  from spendTokens_state[OF sp, of "(namespace w, key)"] ins
  have st: "state (RWSet w') (namespace w, key) = (if ta_IsGraphHiding t then Some ''true'' else None)"
    by simp
  have s0: "if ta_IsGraphHiding t then len (state (RWSet w') (namespace w', key)) \<noteq> 0
            else len (state (RWSet w') (namespace w', key)) = 0"
    by (simp add: st same len_def)
  have "(if ta_IsGraphHiding t then len (state (RWSet w'') (namespace w'', key)) \<noteq> 0
          else len (state (RWSet w'') (namespace w'', key)) = 0) \<and> namespace w'' = namespace w'"
    by (rule write_actions_keep_spent[OF writes s0]) (use mode fresh same in simp_all)
  then have "checkInputs w2 (ta_IsGraphHiding t2) ids2 \<noteq> None"
    by (intro checkInputs_spent[OF later(2)]) (auto simp: ledger later same split: if_splits)
  then show ?thesis
    by (auto simp: checkTransfer_def later split: option.splits)
qed

end
